theory Spec2Isabelle
  imports Main "HOL-Library.Word"
begin

section \<open>Values shared by server and client\<close>

text \<open>
  A JavaScript string is a sequence of UTF-16 code units. String literals of the
  source are written through \<open>js\<close>, which maps an ASCII literal to its code units.
\<close>

type_synonym js_string = "16 word list"

definition js :: "string \<Rightarrow> js_string" where
  "js s = map of_char s"

text \<open>
  What the store answers when it refuses a statement because of a value in it: a
  string with the code unit U+0000 cannot be stored in a text column, and an integer
  outside the range of the integer column cannot be compared with the id.
\<close>

datatype store_fault = InvalidByteSequence | IntegerOutOfRange int

text \<open>
  A thrown error: an \<^verbatim>\<open>Error\<close> object made by the handlers, identified by
  its message, or the error of a refused statement. Timestamps (\<^verbatim>\<open>Date\<close>)
  are milliseconds since the epoch; ids are integers.
\<close>

datatype error = Error js_string | StoreError store_fault

text \<open>The \<^verbatim>\<open>Todo\<close> record of the data contract; a null description is \<open>None\<close>.\<close>

record todo =
  todo_id :: int
  title :: js_string
  description :: "js_string option"
  completed :: bool
  created_at :: int
  updated_at :: int

text \<open>
  \<^verbatim>\<open>UpdateTodoInput\<close>: an omitted (undefined) field is \<open>None\<close>. For the
  description, \<open>Some None\<close> is an explicit null and \<open>Some (Some s)\<close> a string.
\<close>

record update_todo_input =
  in_id :: int
  in_title :: "js_string option"
  in_description :: "js_string option option"
  in_completed :: "bool option"

record delete_todo_input =
  del_id :: int

record delete_result =
  success :: bool

section \<open>Rendering a number in a template literal\<close>

text \<open>
  \<^verbatim>\<open>`${input.id}`\<close> renders an integer in decimal, with a leading minus sign
  when negative.
\<close>

definition digit :: "nat \<Rightarrow> 16 word" where
  "digit d = of_nat (48 + d)"

fun show_nat :: "nat \<Rightarrow> js_string" where
  "show_nat n = (if n < 10 then [digit n] else show_nat (n div 10) @ [digit (n mod 10)])"

declare show_nat.simps [simp del]

definition show_int :: "int \<Rightarrow> js_string" where
  "show_int i = (if i < 0 then (45 :: 16 word) # show_nat (nat (- i)) else show_nat (nat i))"

section \<open>The server: store and handlers\<close>

text \<open>
  Modelled from the spec: the schema of the todos table is not among the source
  files. Its id column is an integer primary key, so the table is a map from the id
  to the row with that id, and a statement never depends on an order of the rows.
\<close>

type_synonym todos_table = "int \<rightharpoonup> todo"

definition int4 :: "int \<Rightarrow> bool" where
  "int4 i \<longleftrightarrow> - 2147483648 \<le> i \<and> i \<le> 2147483647"

definition has_nul :: "js_string \<Rightarrow> bool" where
  "has_nul s \<longleftrightarrow> 0 \<in> set s"

text \<open>
  A string reaches the store encoded as UTF-8 and is read back from it: a surrogate
  code unit that is not part of a pair comes back as U+FFFD.
\<close>

definition is_high_surrogate :: "16 word \<Rightarrow> bool" where
  "is_high_surrogate c \<longleftrightarrow> 0xD800 \<le> c \<and> c \<le> 0xDBFF"

definition is_low_surrogate :: "16 word \<Rightarrow> bool" where
  "is_low_surrogate c \<longleftrightarrow> 0xDC00 \<le> c \<and> c \<le> 0xDFFF"

fun to_well_formed :: "js_string \<Rightarrow> js_string" where
  "to_well_formed [] = []"
| "to_well_formed [c] = [if is_high_surrogate c \<or> is_low_surrogate c then 0xFFFD else c]"
| "to_well_formed (c # d # s) =
     (if is_high_surrogate c \<and> is_low_surrogate d then c # d # to_well_formed s
      else (if is_high_surrogate c \<or> is_low_surrogate c then 0xFFFD else c)
           # to_well_formed (d # s))"

text \<open>
  The values object built by \<^verbatim>\<open>updateTodo\<close> has a key only for what was
  assigned to it; \<open>None\<close> is a missing key.
\<close>

record update_values =
  uv_title :: "js_string option"
  uv_description :: "js_string option option"
  uv_completed :: "bool option"
  uv_updated_at :: "int option"

definition empty_values :: update_values where
  "empty_values = \<lparr>uv_title = None, uv_description = None, uv_completed = None,
     uv_updated_at = None\<rparr>"

text \<open>The values as the store holds them once written.\<close>

definition as_stored :: "update_values \<Rightarrow> update_values" where
  "as_stored uv =
     uv\<lparr>uv_title := map_option to_well_formed (uv_title uv),
       uv_description := map_option (map_option to_well_formed) (uv_description uv)\<rparr>"

text \<open>\<^verbatim>\<open>.set(values)\<close> on one row: every key of the object overwrites its column.\<close>

definition set_values :: "update_values \<Rightarrow> todo \<Rightarrow> todo" where
  "set_values uv row =
     (let r1 = (case uv_title uv of None \<Rightarrow> row | Some t \<Rightarrow> row\<lparr>title := t\<rparr>);
          r2 = (case uv_description uv of None \<Rightarrow> r1 | Some d \<Rightarrow> r1\<lparr>description := d\<rparr>);
          r3 = (case uv_completed uv of None \<Rightarrow> r2 | Some c \<Rightarrow> r2\<lparr>completed := c\<rparr>)
      in (case uv_updated_at uv of None \<Rightarrow> r3 | Some u \<Rightarrow> r3\<lparr>updated_at := u\<rparr>))"

text \<open>
  \<^verbatim>\<open>db.update(todosTable).set(values).where(eq(todosTable.id, i)).returning()\<close>.
  The store first takes the values of the statement in their order (title,
  description, then the id compared with) and refuses the statement at the first one
  it cannot take, whether or not a row matches. Otherwise the row whose id is \<open>i\<close>,
  if there is one, is overwritten and returned.
\<close>

definition db_update ::
  "update_values \<Rightarrow> int \<Rightarrow> todos_table \<Rightarrow> store_fault + (todo list \<times> todos_table)" where
  "db_update uv i tbl =
     (if (case uv_title uv of Some t \<Rightarrow> has_nul t | None \<Rightarrow> False)
      then Inl InvalidByteSequence
      else if (case uv_description uv of Some (Some d) \<Rightarrow> has_nul d | _ \<Rightarrow> False)
      then Inl InvalidByteSequence
      else if int4 i then
        (case tbl i of
           None \<Rightarrow> Inr ([], tbl)
         | Some r \<Rightarrow> (let r' = set_values (as_stored uv) r in Inr ([r'], tbl(i \<mapsto> r'))))
      else Inl (IntegerOutOfRange i))"

text \<open>
  \<^verbatim>\<open>db.delete(todosTable).where(eq(todosTable.id, i)).returning()\<close>: refused for
  an id outside the column's range; otherwise the row whose id is \<open>i\<close>, if there is
  one, is removed and returned.
\<close>

definition db_delete :: "int \<Rightarrow> todos_table \<Rightarrow> store_fault + (todo list \<times> todos_table)" where
  "db_delete i tbl =
     (if int4 i then
        (case tbl i of
           None \<Rightarrow> Inr ([], tbl)
         | Some r \<Rightarrow> Inr ([r], tbl(i := None)))
      else Inl (IntegerOutOfRange i))"

text \<open>The server's state: the table, and what the handlers wrote with \<^verbatim>\<open>console.error\<close>.\<close>

record server =
  rows :: todos_table
  server_console :: "(js_string \<times> error) list"

text \<open>
  The \<^verbatim>\<open>catch\<close> block of both handlers: whatever the \<^verbatim>\<open>try\<close> block
  threw is written to the console under the handler's label and thrown again.
\<close>

definition catch_log :: "js_string \<Rightarrow> (error + 'a) \<times> server \<Rightarrow> (error + 'a) \<times> server" where
  "catch_log label outcome =
     (case outcome of
        (Inl e, s) \<Rightarrow> (Inl e, s\<lparr>server_console := server_console s @ [(label, e)]\<rparr>)
      | (Inr r, s) \<Rightarrow> (Inr r, s))"

text \<open>
  \<^verbatim>\<open>updateTodo\<close>, with the reading of the clock (\<^verbatim>\<open>new Date()\<close>) as the
  argument \<open>now\<close>. The statement is executed before the result is inspected: a
  refused statement throws the store's error, an empty result throws the handler's
  own.
\<close>

definition updateTodo :: "int \<Rightarrow> update_todo_input \<Rightarrow> server \<Rightarrow> (error + todo) \<times> server" where
  "updateTodo now input s =
     catch_log (js ''Todo update failed:'')
       (let uv0 = empty_values;
            uv1 = (case in_title input of None \<Rightarrow> uv0 | Some t \<Rightarrow> uv0\<lparr>uv_title := Some t\<rparr>);
            uv2 = (case in_description input of None \<Rightarrow> uv1
                   | Some d \<Rightarrow> uv1\<lparr>uv_description := Some d\<rparr>);
            uv3 = (case in_completed input of None \<Rightarrow> uv2
                   | Some c \<Rightarrow> uv2\<lparr>uv_completed := Some c\<rparr>);
            uv4 = uv3\<lparr>uv_updated_at := Some now\<rparr>
        in (case db_update uv4 (in_id input) (rows s) of
              Inl fault \<Rightarrow> (Inl (StoreError fault), s)
            | Inr (result, rows') \<Rightarrow>
                (case result of
                   [] \<Rightarrow>
                     (Inl (Error (js ''Todo with id '' @ show_int (in_id input) @ js '' not found'')),
                      s\<lparr>rows := rows'\<rparr>)
                 | r # _ \<Rightarrow> (Inr r, s\<lparr>rows := rows'\<rparr>))))"

text \<open>\<^verbatim>\<open>deleteTodo\<close>: the success flag is whether the statement returned a row.\<close>

definition deleteTodo :: "delete_todo_input \<Rightarrow> server \<Rightarrow> (error + delete_result) \<times> server" where
  "deleteTodo input s =
     catch_log (js ''Todo deletion failed:'')
       (case db_delete (del_id input) (rows s) of
          Inl fault \<Rightarrow> (Inl (StoreError fault), s)
        | Inr (result, rows') \<Rightarrow> (Inr \<lparr>success = length result > 0\<rparr>, s\<lparr>rows := rows'\<rparr>))"

section \<open>The client: state of the todo view\<close>

text \<open>
  \<^verbatim>\<open>String.prototype.trim\<close> removes white space and line terminators from
  both ends of a string.
\<close>

definition is_white_space :: "16 word \<Rightarrow> bool" where
  "is_white_space c \<longleftrightarrow>
     c = 0x9 \<or> c = 0xA \<or> c = 0xB \<or> c = 0xC \<or> c = 0xD \<or> c = 0x20 \<or> c = 0xA0 \<or>
     c = 0x1680 \<or> (0x2000 \<le> c \<and> c \<le> 0x200A) \<or> c = 0x2028 \<or> c = 0x2029 \<or>
     c = 0x202F \<or> c = 0x205F \<or> c = 0x3000 \<or> c = 0xFEFF"

definition trim :: "js_string \<Rightarrow> js_string" where
  "trim s = rev (dropWhile is_white_space (rev (dropWhile is_white_space s)))"

text \<open>\<^verbatim>\<open>value || null\<close> on a string: the empty string is falsy.\<close>

definition or_null :: "js_string \<Rightarrow> js_string option" where
  "or_null s = (if s = [] then None else Some s)"

text \<open>
  \<^verbatim>\<open>CreateTodoInput\<close> as the form holds it (the description is always a
  string or null there), and the state of the edit form.
\<close>

record create_todo_input =
  ci_title :: js_string
  ci_description :: "js_string option"

record edit_form =
  ef_title :: js_string
  ef_description :: "js_string option"

text \<open>
  The \<^verbatim>\<open>useState\<close> cells of \<^verbatim>\<open>TodoApp\<close>, and what it wrote with
  \<^verbatim>\<open>console.error\<close>.
\<close>

record view =
  todos :: "todo list"
  isLoading :: bool
  editingTodo :: "todo option"
  formData :: create_todo_input
  editFormData :: edit_form
  console :: "(js_string \<times> error) list"

definition initial_view :: view where
  "initial_view = \<lparr>todos = [], isLoading = False, editingTodo = None,
     formData = \<lparr>ci_title = [], ci_description = None\<rparr>,
     editFormData = \<lparr>ef_title = [], ef_description = None\<rparr>, console = []\<rparr>"

text \<open>The remote procedures the view calls through \<^verbatim>\<open>trpc\<close>.\<close>

datatype rpc_call =
    GetTodos
  | CreateTodo create_todo_input
  | UpdateTodo update_todo_input
  | DeleteTodo delete_todo_input

section \<open>The client: handlers\<close>

text \<open>
  An asynchronous handler is two functions: \<open>_call\<close> is the code up to its
  \<^verbatim>\<open>await\<close>, returning the remote call made (\<open>None\<close> when it returns before
  calling) and the state; \<open>_resume\<close> is the code after it, run on the state of that
  moment with the outcome of the call: \<open>Inr\<close> the resolved value, \<open>Inl\<close> the
  rejection caught by the \<^verbatim>\<open>catch\<close> block.
\<close>

definition loadTodos_call :: "view \<Rightarrow> rpc_call option \<times> view" where
  "loadTodos_call v = (Some GetTodos, v)"

definition loadTodos_resume :: "error + todo list \<Rightarrow> view \<Rightarrow> view" where
  "loadTodos_resume outcome v =
     (case outcome of
        Inr result \<Rightarrow> v\<lparr>todos := result\<rparr>
      | Inl e \<Rightarrow> v\<lparr>console := console v @ [(js ''Failed to load todos:'', e)]\<rparr>)"

definition handleSubmit_call :: "view \<Rightarrow> rpc_call option \<times> view" where
  "handleSubmit_call v =
     (if trim (ci_title (formData v)) = [] then (None, v)
      else (Some (CreateTodo (formData v)), v\<lparr>isLoading := True\<rparr>))"

definition handleSubmit_resume :: "error + todo \<Rightarrow> view \<Rightarrow> view" where
  "handleSubmit_resume outcome v =
     (let v' = (case outcome of
                  Inr response \<Rightarrow>
                    v\<lparr>todos := todos v @ [response],
                      formData := \<lparr>ci_title = [], ci_description = None\<rparr>\<rparr>
                | Inl e \<Rightarrow> v\<lparr>console := console v @ [(js ''Failed to create todo:'', e)]\<rparr>)
      in v'\<lparr>isLoading := False\<rparr>)"

definition handleToggleComplete_call :: "todo \<Rightarrow> view \<Rightarrow> rpc_call option \<times> view" where
  "handleToggleComplete_call todo v =
     (Some (UpdateTodo \<lparr>in_id = todo_id todo, in_title = None, in_description = None,
        in_completed = Some (\<not> completed todo)\<rparr>), v)"

definition handleToggleComplete_resume :: "todo \<Rightarrow> error + todo \<Rightarrow> view \<Rightarrow> view" where
  "handleToggleComplete_resume todo outcome v =
     (case outcome of
        Inr response \<Rightarrow>
          v\<lparr>todos := map (\<lambda>t. if todo_id t = todo_id todo then response else t) (todos v)\<rparr>
      | Inl e \<Rightarrow> v\<lparr>console := console v @ [(js ''Failed to toggle todo:'', e)]\<rparr>)"

definition handleDelete_call :: "int \<Rightarrow> view \<Rightarrow> rpc_call option \<times> view" where
  "handleDelete_call todoId v = (Some (DeleteTodo \<lparr>del_id = todoId\<rparr>), v)"

definition handleDelete_resume :: "int \<Rightarrow> error + delete_result \<Rightarrow> view \<Rightarrow> view" where
  "handleDelete_resume todoId outcome v =
     (case outcome of
        Inr _ \<Rightarrow> v\<lparr>todos := filter (\<lambda>t. todo_id t \<noteq> todoId) (todos v)\<rparr>
      | Inl e \<Rightarrow> v\<lparr>console := console v @ [(js ''Failed to delete todo:'', e)]\<rparr>)"

definition startEdit :: "todo \<Rightarrow> view \<Rightarrow> view" where
  "startEdit todo v =
     v\<lparr>editingTodo := Some todo,
       editFormData := \<lparr>ef_title = title todo, ef_description = description todo\<rparr>\<rparr>"

definition handleEditSubmit_call :: "view \<Rightarrow> rpc_call option \<times> view" where
  "handleEditSubmit_call v =
     (case editingTodo v of
        None \<Rightarrow> (None, v)
      | Some et \<Rightarrow>
          if trim (ef_title (editFormData v)) = [] then (None, v)
          else (Some (UpdateTodo \<lparr>in_id = todo_id et,
                  in_title = Some (ef_title (editFormData v)),
                  in_description = Some (ef_description (editFormData v)),
                  in_completed = None\<rparr>), v))"

definition handleEditSubmit_resume :: "todo \<Rightarrow> error + todo \<Rightarrow> view \<Rightarrow> view" where
  "handleEditSubmit_resume et outcome v =
     (case outcome of
        Inr response \<Rightarrow>
          v\<lparr>todos := map (\<lambda>t. if todo_id t = todo_id et then response else t) (todos v),
            editingTodo := None,
            editFormData := \<lparr>ef_title = [], ef_description = None\<rparr>\<rparr>
      | Inl e \<Rightarrow> v\<lparr>console := console v @ [(js ''Failed to update todo:'', e)]\<rparr>)"

definition cancelEdit :: "view \<Rightarrow> view" where
  "cancelEdit v = v\<lparr>editingTodo := None, editFormData := \<lparr>ef_title = [], ef_description = None\<rparr>\<rparr>"

text \<open>The \<^verbatim>\<open>onChange\<close> handlers of the two title inputs and the two textareas.\<close>

definition title_onChange :: "js_string \<Rightarrow> view \<Rightarrow> view" where
  "title_onChange s v = v\<lparr>formData := (formData v)\<lparr>ci_title := s\<rparr>\<rparr>"

definition description_onChange :: "js_string \<Rightarrow> view \<Rightarrow> view" where
  "description_onChange s v = v\<lparr>formData := (formData v)\<lparr>ci_description := or_null s\<rparr>\<rparr>"

definition edit_title_onChange :: "js_string \<Rightarrow> view \<Rightarrow> view" where
  "edit_title_onChange s v = v\<lparr>editFormData := (editFormData v)\<lparr>ef_title := s\<rparr>\<rparr>"

definition edit_description_onChange :: "js_string \<Rightarrow> view \<Rightarrow> view" where
  "edit_description_onChange s v =
     v\<lparr>editFormData := (editFormData v)\<lparr>ef_description := or_null s\<rparr>\<rparr>"

section \<open>The client: what is rendered\<close>

definition completedCount :: "view \<Rightarrow> int" where
  "completedCount v = int (length (filter completed (todos v)))"

definition totalCount :: "view \<Rightarrow> int" where
  "totalCount v = int (length (todos v))"

text \<open>The three badges of the header, the cards of the list, and the screen.\<close>

record badges =
  badge_total :: int
  badge_completed :: int
  badge_remaining :: int

datatype card = EditCard edit_form | TodoCard todo

datatype todo_list = NoTodosYet | Cards "card list"

record screen =
  summary :: "badges option"
  submit_disabled :: bool
  shown_list :: todo_list

text \<open>
  \<^verbatim>\<open>editingTodo?.id === todo.id\<close> is false when nothing is being edited.
\<close>

definition render_card :: "view \<Rightarrow> todo \<Rightarrow> card" where
  "render_card v todo =
     (if (case editingTodo v of None \<Rightarrow> False | Some et \<Rightarrow> todo_id et = todo_id todo)
      then EditCard (editFormData v) else TodoCard todo)"

definition TodoApp :: "view \<Rightarrow> screen" where
  "TodoApp v =
     \<lparr>summary =
        (if totalCount v > 0
         then Some \<lparr>badge_total = totalCount v, badge_completed = completedCount v,
                badge_remaining = totalCount v - completedCount v\<rparr>
         else None),
      submit_disabled = isLoading v,
      shown_list =
        (if length (todos v) = 0 then NoTodosYet else Cards (map (render_card v) (todos v)))\<rparr>"

section \<open>The client: user actions on the rendered screen\<close>

text \<open>
  An event is a user action on a control of the screen, or the outcome of a remote
  call reaching the code after its \<^verbatim>\<open>await\<close> (with the values that code
  captured). Controls are addressed by the position of their card. An action on a
  control that is not on the screen, or on the disabled submit button, does nothing.
\<close>

datatype event =
    Mounted
  | LoadDone "error + todo list"
  | TitleInput js_string
  | DescriptionInput js_string
  | SubmitForm
  | CreateDone "error + todo"
  | CheckboxClicked nat
  | ToggleDone todo "error + todo"
  | EditClicked nat
  | EditTitleInput js_string
  | EditDescriptionInput js_string
  | EditSubmitForm
  | EditDone todo "error + todo"
  | CancelClicked
  | DeleteConfirmed nat
  | DeleteDone int "error + delete_result"

definition on_todo_card :: "nat \<Rightarrow> view \<Rightarrow> (todo \<Rightarrow> rpc_call option \<times> view) \<Rightarrow> rpc_call option \<times> view" where
  "on_todo_card i v handler =
     (if i < length (todos v) then
        (case render_card v (todos v ! i) of
           TodoCard todo \<Rightarrow> handler todo
         | EditCard _ \<Rightarrow> (None, v))
      else (None, v))"

definition edit_form_shown :: "view \<Rightarrow> bool" where
  "edit_form_shown v \<longleftrightarrow>
     (\<exists>todo \<in> set (todos v). case render_card v todo of EditCard _ \<Rightarrow> True | TodoCard _ \<Rightarrow> False)"

fun step :: "event \<Rightarrow> view \<Rightarrow> rpc_call option \<times> view" where
  "step Mounted v = loadTodos_call v"
| "step (LoadDone outcome) v = (None, loadTodos_resume outcome v)"
| "step (TitleInput s) v = (None, title_onChange s v)"
| "step (DescriptionInput s) v = (None, description_onChange s v)"
| "step SubmitForm v = (if submit_disabled (TodoApp v) then (None, v) else handleSubmit_call v)"
| "step (CreateDone outcome) v = (None, handleSubmit_resume outcome v)"
| "step (CheckboxClicked i) v = on_todo_card i v (\<lambda>todo. handleToggleComplete_call todo v)"
| "step (ToggleDone todo outcome) v = (None, handleToggleComplete_resume todo outcome v)"
| "step (EditClicked i) v = on_todo_card i v (\<lambda>todo. (None, startEdit todo v))"
| "step (EditTitleInput s) v =
     (if edit_form_shown v then (None, edit_title_onChange s v) else (None, v))"
| "step (EditDescriptionInput s) v =
     (if edit_form_shown v then (None, edit_description_onChange s v) else (None, v))"
| "step EditSubmitForm v = (if edit_form_shown v then handleEditSubmit_call v else (None, v))"
| "step (EditDone et outcome) v = (None, handleEditSubmit_resume et outcome v)"
| "step CancelClicked v = (if edit_form_shown v then (None, cancelEdit v) else (None, v))"
| "step (DeleteConfirmed i) v = on_todo_card i v (\<lambda>todo. handleDelete_call (todo_id todo) v)"
| "step (DeleteDone todoId outcome) v = (None, handleDelete_resume todoId outcome v)"

text \<open>Running a sequence of events, collecting the remote calls made in order.\<close>

fun run :: "event list \<Rightarrow> view \<Rightarrow> rpc_call list \<times> view" where
  "run [] v = ([], v)"
| "run (e # es) v =
     (let (c, v') = step e v; (cs, v'') = run es v'
      in ((case c of None \<Rightarrow> [] | Some call \<Rightarrow> [call]) @ cs, v''))"

text \<open>The todos an event brings from the server into the view.\<close>

fun delivered :: "event \<Rightarrow> todo list" where
  "delivered (LoadDone (Inr result)) = result"
| "delivered (CreateDone (Inr response)) = [response]"
| "delivered (ToggleDone _ (Inr response)) = [response]"
| "delivered (EditDone _ (Inr response)) = [response]"
| "delivered _ = []"

section \<open>The theme\<close>

datatype theme = Light | Dark

text \<open>
  The theme context: the current mode and the preference persisted for later
  sessions (\<open>None\<close> when nothing was persisted).
\<close>

record theme_context =
  theme :: theme
  persisted :: "theme option"

text \<open>
  Modelled from the spec: the theme provider (\<^verbatim>\<open>ThemeProvider\<close>,
  \<^verbatim>\<open>useTheme\<close>) is not among the source files. The initial mode is the
  persisted preference if one exists, otherwise light.
\<close>

definition start_session :: "theme option \<Rightarrow> theme_context" where
  "start_session pref =
     \<lparr>theme = (case pref of Some t \<Rightarrow> t | None \<Rightarrow> Light), persisted = pref\<rparr>"

text \<open>
  Modelled from the spec: the provider's toggle flips the current mode and persists
  the new value for future sessions.
\<close>

definition toggleTheme :: "theme_context \<Rightarrow> theme_context" where
  "toggleTheme c =
     (let t = (case theme c of Light \<Rightarrow> Dark | Dark \<Rightarrow> Light)
      in \<lparr>theme = t, persisted = Some t\<rparr>)"

text \<open>The value of type \<^verbatim>\<open>Theme\<close> as the string the source compares it with.\<close>

definition theme_string :: "theme \<Rightarrow> js_string" where
  "theme_string t = (case t of Light \<Rightarrow> js ''light'' | Dark \<Rightarrow> js ''dark'')"

datatype icon = Moon | Sun

text \<open>
  The button rendered by \<^verbatim>\<open>ThemeToggle\<close>: its title, its icon, and the
  context after a click (\<^verbatim>\<open>onClick={toggleTheme}\<close>).
\<close>

record toggle_button =
  button_title :: js_string
  button_icon :: icon
  button_onClick :: theme_context

definition ThemeToggle :: "theme_context \<Rightarrow> toggle_button" where
  "ThemeToggle c =
     \<lparr>button_title =
        js ''Switch to '' @
        (if theme_string (theme c) = js ''light'' then js ''dark'' else js ''light'') @
        js '' mode'',
      button_icon = (if theme_string (theme c) = js ''light'' then Moon else Sun),
      button_onClick = toggleTheme c\<rparr>"

section \<open>Decimal rendering is injective\<close>

lemma show_nat_small: "n < 10 \<Longrightarrow> show_nat n = [digit n]"
  by (subst show_nat.simps) simp

lemma show_nat_large: "\<not> n < 10 \<Longrightarrow> show_nat n = show_nat (n div 10) @ [digit (n mod 10)]"
  by (subst show_nat.simps) simp

lemma show_nat_ne: "show_nat n \<noteq> []"
  by (subst show_nat.simps) simp

lemma digit_inj: "a < 10 \<Longrightarrow> b < 10 \<Longrightarrow> digit a = digit b \<Longrightarrow> a = b"
  unfolding digit_def
  by (simp add: word_of_nat_eq_iff take_bit_nat_eq_self)

lemma digit_ne_minus: "d < 10 \<Longrightarrow> digit d \<noteq> 45"
proof
  assume d: "d < 10" and "digit d = 45"
  then have "(of_nat (48 + d) :: 16 word) = of_nat 45"
    by (simp add: digit_def)
  then have "48 + d = 45"
    using d by (simp add: word_of_nat_eq_iff take_bit_nat_eq_self del: of_nat_add of_nat_numeral)
  then show False by simp
qed

lemma hd_show_nat: "hd (show_nat n) \<noteq> 45"
proof (induction n rule: show_nat.induct)
  case (1 n)
  show ?case
  proof (cases "n < 10")
    case True
    then show ?thesis by (simp add: show_nat.simps[of n] digit_ne_minus)
  next
    case False
    with 1 show_nat_ne[of "n div 10"] show ?thesis
      by (simp add: show_nat.simps[of n])
  qed
qed

lemma show_nat_inj: "show_nat n = show_nat m \<Longrightarrow> n = m"
proof (induction n arbitrary: m rule: show_nat.induct)
  case (1 n)
  show ?case
  proof (cases "n < 10")
    case True
    show ?thesis
    proof (cases "m < 10")
      case True
      with \<open>n < 10\<close> 1 show ?thesis
        by (simp add: show_nat.simps[of n] show_nat.simps[of m] digit_inj)
    next
      case False
      with \<open>n < 10\<close> 1 show_nat_ne[of "m div 10"] show ?thesis
        by (auto simp add: show_nat.simps[of n] show_nat.simps[of m])
    qed
  next
    case False
    show ?thesis
    proof (cases "m < 10")
      case True
      with \<open>\<not> n < 10\<close> 1 show ?thesis
        using show_nat_ne[of "n div 10"]
        by (simp add: show_nat.simps[of n] show_nat.simps[of m])
    next
      case mf: False
      from 1(2) False mf have a: "show_nat (n div 10) = show_nat (m div 10)"
        and b: "digit (n mod 10) = digit (m mod 10)"
        by (simp_all add: show_nat.simps[of n] show_nat.simps[of m])
      from 1(1)[OF False a] have "n div 10 = m div 10" .
      moreover from b have "n mod 10 = m mod 10"
        by (simp add: digit_inj)
      ultimately show ?thesis
        by (metis div_mult_mod_eq)
    qed
  qed
qed

lemma show_int_inj: "show_int i = show_int j \<Longrightarrow> i = j"
proof -
  assume e: "show_int i = show_int j"
  have ne: "\<And>n m. (45 :: 16 word) # show_nat n \<noteq> show_nat m"
    using hd_show_nat by (metis list.sel(1))
  show ?thesis
  proof (cases "i < 0")
    case True
    show ?thesis
    proof (cases "j < 0")
      case jt: True
      with True e have "nat (- i) = nat (- j)"
        by (simp add: show_int_def show_nat_inj)
      with True jt show ?thesis by simp
    next
      case False
      with True e ne show ?thesis by (simp add: show_int_def)
    qed
  next
    case False
    show ?thesis
    proof (cases "j < 0")
      case True
      with False e ne[of "nat (- j)" "nat i"] show ?thesis by (simp add: show_int_def)
    next
      case jf: False
      with False e have "nat i = nat j"
        by (simp add: show_int_def show_nat_inj)
      with False jf show ?thesis by simp
    qed
  qed
qed

section \<open>Facts about the store\<close>

lemma input_values:
  "(let uv0 = empty_values;
        uv1 = (case in_title input of None \<Rightarrow> uv0 | Some t \<Rightarrow> uv0\<lparr>uv_title := Some t\<rparr>);
        uv2 = (case in_description input of None \<Rightarrow> uv1
               | Some d \<Rightarrow> uv1\<lparr>uv_description := Some d\<rparr>);
        uv3 = (case in_completed input of None \<Rightarrow> uv2
               | Some c \<Rightarrow> uv2\<lparr>uv_completed := Some c\<rparr>);
        uv4 = uv3\<lparr>uv_updated_at := Some now\<rparr>
    in f uv4) =
   f \<lparr>uv_title = in_title input, uv_description = in_description input,
       uv_completed = in_completed input, uv_updated_at = Some now\<rparr>"
  by (simp add: empty_values_def Let_def split: option.splits)

lemma set_values_stored:
  "set_values (as_stored \<lparr>uv_title = in_title input, uv_description = in_description input,
       uv_completed = in_completed input, uv_updated_at = Some now\<rparr>) r =
   r\<lparr>title := (case in_title input of None \<Rightarrow> title r | Some t \<Rightarrow> to_well_formed t),
     description := (case in_description input of None \<Rightarrow> description r
                     | Some d \<Rightarrow> map_option to_well_formed d),
     completed := (case in_completed input of None \<Rightarrow> completed r | Some c \<Rightarrow> c),
     updated_at := now\<rparr>"
  by (simp add: set_values_def as_stored_def Let_def split: option.splits)

lemma updateTodo_found:
  assumes "int4 (in_id input)"
    and "\<forall>t. in_title input = Some t \<longrightarrow> \<not> has_nul t"
    and "\<forall>d. in_description input = Some (Some d) \<longrightarrow> \<not> has_nul d"
    and "rows s (in_id input) = Some old"
  shows "updateTodo now input s =
     (Inr (old\<lparr>title := (case in_title input of None \<Rightarrow> title old | Some t \<Rightarrow> to_well_formed t),
        description := (case in_description input of None \<Rightarrow> description old
                        | Some d \<Rightarrow> map_option to_well_formed d),
        completed := (case in_completed input of None \<Rightarrow> completed old | Some c \<Rightarrow> c),
        updated_at := now\<rparr>),
      s\<lparr>rows := (rows s)(in_id input \<mapsto>
        old\<lparr>title := (case in_title input of None \<Rightarrow> title old | Some t \<Rightarrow> to_well_formed t),
        description := (case in_description input of None \<Rightarrow> description old
                        | Some d \<Rightarrow> map_option to_well_formed d),
        completed := (case in_completed input of None \<Rightarrow> completed old | Some c \<Rightarrow> c),
        updated_at := now\<rparr>)\<rparr>)"
proof -
  have t: "(case in_title input of Some t \<Rightarrow> has_nul t | None \<Rightarrow> False) = False"
    using assms(2) by (simp split: option.splits)
  have d: "(case in_description input of Some (Some d) \<Rightarrow> has_nul d | _ \<Rightarrow> False) = False"
    using assms(3) by (simp split: option.splits)
  show ?thesis
    unfolding updateTodo_def input_values
    by (simp add: db_update_def t d assms(1) assms(4) set_values_stored catch_log_def Let_def)
qed

lemma updateTodo_absent:
  assumes "int4 (in_id input)"
    and "\<forall>t. in_title input = Some t \<longrightarrow> \<not> has_nul t"
    and "\<forall>d. in_description input = Some (Some d) \<longrightarrow> \<not> has_nul d"
    and "rows s (in_id input) = None"
  shows "updateTodo now input s =
     (Inl (Error (js ''Todo with id '' @ show_int (in_id input) @ js '' not found'')),
      s\<lparr>server_console := server_console s @ [(js ''Todo update failed:'',
         Error (js ''Todo with id '' @ show_int (in_id input) @ js '' not found''))]\<rparr>)"
proof -
  have t: "(case in_title input of Some t \<Rightarrow> has_nul t | None \<Rightarrow> False) = False"
    using assms(2) by (simp split: option.splits)
  have d: "(case in_description input of Some (Some d) \<Rightarrow> has_nul d | _ \<Rightarrow> False) = False"
    using assms(3) by (simp split: option.splits)
  show ?thesis
    unfolding updateTodo_def input_values
    by (simp add: db_update_def t d assms(1) assms(4) catch_log_def)
qed

lemma updateTodo_refused:
  assumes "\<not> int4 (in_id input) \<or> (\<exists>t. in_title input = Some t \<and> has_nul t)
      \<or> (\<exists>d. in_description input = Some (Some d) \<and> has_nul d)"
  shows "\<exists>fault. updateTodo now input s =
     (Inl (StoreError fault),
      s\<lparr>server_console := server_console s @ [(js ''Todo update failed:'', StoreError fault)]\<rparr>)"
  using assms unfolding updateTodo_def input_values
  by (auto simp add: db_update_def catch_log_def split: option.splits)

lemma updateTodo_fails_when_absent:
  assumes "rows s (in_id input) = None"
  shows "\<exists>e. updateTodo now input s =
     (Inl e, s\<lparr>server_console := server_console s @ [(js ''Todo update failed:'', e)]\<rparr>)"
  using assms unfolding updateTodo_def input_values
  by (auto simp add: db_update_def catch_log_def split: option.splits)

lemma card_dom_remove:
  "finite (dom m) \<Longrightarrow> card (dom m) - card (dom (m(i := None))) = (if m i \<noteq> None then 1 else 0)"
proof -
  assume f: "finite (dom m)"
  show ?thesis
  proof (cases "m i")
    case None
    then have "m(i := None) = m"
      by (simp add: fun_upd_idem)
    with None show ?thesis
      by simp
  next
    case (Some r)
    then have "i \<in> dom m"
      by auto
    with f have "card (dom m - {i}) = card (dom m) - 1" and "0 < card (dom m)"
      by (simp_all add: card_gt_0_iff) auto
    with Some show ?thesis
      by simp
  qed
qed

lemmas literal_eval = js_def has_nul_def int4_def is_high_surrogate_def is_low_surrogate_def

section \<open>The update handler\<close>

text \<open>
  C1 asks for \<open>updated_at\<close> to be strictly later than the prior value after every
  update, and the handler's test asserts it. The handler stores the reading of its
  clock: on the row and the input of that test, when the clock reads the millisecond
  the row's \<open>updated_at\<close> holds (1000), the title is updated and \<open>updated_at\<close>
  is 1000 again, which is not later.
\<close>

theorem updateTodo_updated_at_not_later:
  "fst (updateTodo 1000
      \<lparr>in_id = 1, in_title = Some (js ''Updated Title''), in_description = None, in_completed = None\<rparr>
      \<lparr>rows = [1 \<mapsto> \<lparr>todo_id = 1, title = js ''Original Title'',
         description = Some (js ''Original description''),
         completed = False, created_at = 1000, updated_at = 1000\<rparr>], server_console = []\<rparr>)
   = Inr \<lparr>todo_id = 1, title = js ''Updated Title'', description = Some (js ''Original description''),
         completed = False, created_at = 1000, updated_at = 1000\<rparr> \<and>
   \<not> updated_at \<lparr>todo_id = 1, title = js ''Original Title'', description = Some (js ''Original description''),
         completed = False, created_at = 1000, updated_at = 1000\<rparr>
     < updated_at (projr (fst (updateTodo 1000
      \<lparr>in_id = 1, in_title = Some (js ''Updated Title''), in_description = None, in_completed = None\<rparr>
      \<lparr>rows = [1 \<mapsto> \<lparr>todo_id = 1, title = js ''Original Title'',
         description = Some (js ''Original description''),
         completed = False, created_at = 1000, updated_at = 1000\<rparr>], server_console = []\<rparr>)))"
proof -
  let ?old = "\<lparr>todo_id = 1, title = js ''Original Title'', description = Some (js ''Original description''),
         completed = False, created_at = 1000, updated_at = 1000\<rparr>"
  let ?input = "\<lparr>in_id = 1, in_title = Some (js ''Updated Title''), in_description = None, in_completed = None\<rparr>"
  let ?s = "\<lparr>rows = [1 \<mapsto> ?old], server_console = []\<rparr>"
  have "int4 (in_id ?input)"
    and "\<forall>t. in_title ?input = Some t \<longrightarrow> \<not> has_nul t"
    and "\<forall>d. in_description ?input = Some (Some d) \<longrightarrow> \<not> has_nul d"
    and "rows ?s (in_id ?input) = Some ?old"
    by (simp_all add: literal_eval)
  then have "fst (updateTodo 1000 ?input ?s) = Inr (?old\<lparr>title := to_well_formed (js ''Updated Title''),
      updated_at := 1000\<rparr>)"
    by (simp add: updateTodo_found)
  moreover have "to_well_formed (js ''Updated Title'') = js ''Updated Title''"
    by (simp add: literal_eval)
  ultimately show ?thesis
    by simp
qed

text \<open>
  C2, as stated, promises the Not-Found failure for every id that matches no stored
  todo. The id 2147483648 matches no row, being outside the range of the id column;
  the store refuses the statement and the handler logs and rethrows the store's error,
  which is not the Not-Found error.
\<close>

theorem updateTodo_out_of_range_id:
  "rows \<lparr>rows = [1 \<mapsto> \<lparr>todo_id = 1, title = js ''Original Title'', description = None,
         completed = False, created_at = 1000, updated_at = 1000\<rparr>], server_console = []\<rparr> 2147483648 = None \<and>
   updateTodo 2000
      \<lparr>in_id = 2147483648, in_title = Some (js ''Updated Title''), in_description = None, in_completed = None\<rparr>
      \<lparr>rows = [1 \<mapsto> \<lparr>todo_id = 1, title = js ''Original Title'', description = None,
         completed = False, created_at = 1000, updated_at = 1000\<rparr>], server_console = []\<rparr>
   = (Inl (StoreError (IntegerOutOfRange 2147483648)),
      \<lparr>rows = [1 \<mapsto> \<lparr>todo_id = 1, title = js ''Original Title'', description = None,
         completed = False, created_at = 1000, updated_at = 1000\<rparr>],
       server_console = [(js ''Todo update failed:'', StoreError (IntegerOutOfRange 2147483648))]\<rparr>) \<and>
   fst (updateTodo 2000
      \<lparr>in_id = 2147483648, in_title = Some (js ''Updated Title''), in_description = None, in_completed = None\<rparr>
      \<lparr>rows = [1 \<mapsto> \<lparr>todo_id = 1, title = js ''Original Title'', description = None,
         completed = False, created_at = 1000, updated_at = 1000\<rparr>], server_console = []\<rparr>)
   \<noteq> Inl (Error (js ''Todo with id 2147483648 not found''))"
  unfolding updateTodo_def input_values
  by (simp add: db_update_def catch_log_def literal_eval)

text \<open>
  C2 (amended): when no row has the input's id, \<^verbatim>\<open>updateTodo\<close> fails in that
  call, the table is unchanged and the only effect is the logged error. When the store
  accepts the statement (the id is within the range of the id column and no string
  given holds U+0000), the error is \<^verbatim>\<open>Todo with id <id> not found\<close>, a message
  that determines the id; otherwise it is the store's own error.
\<close>

theorem updateTodo_not_found:
  assumes "rows s (in_id input) = None"
  shows "\<exists>e. updateTodo now input s =
       (Inl e, s\<lparr>server_console := server_console s @ [(js ''Todo update failed:'', e)]\<rparr>) \<and>
     rows (snd (updateTodo now input s)) = rows s \<and>
     (int4 (in_id input) \<and> (\<forall>t. in_title input = Some t \<longrightarrow> \<not> has_nul t) \<and>
      (\<forall>d. in_description input = Some (Some d) \<longrightarrow> \<not> has_nul d) \<longrightarrow>
        e = Error (js ''Todo with id '' @ show_int (in_id input) @ js '' not found'') \<and>
        (\<forall>j. js ''Todo with id '' @ show_int j @ js '' not found''
             = js ''Todo with id '' @ show_int (in_id input) @ js '' not found'' \<longrightarrow> j = in_id input)) \<and>
     (\<not> int4 (in_id input) \<or> (\<exists>t. in_title input = Some t \<and> has_nul t) \<or>
      (\<exists>d. in_description input = Some (Some d) \<and> has_nul d) \<longrightarrow>
        (\<exists>fault. e = StoreError fault))"
proof -
  from assms obtain e where u: "updateTodo now input s =
       (Inl e, s\<lparr>server_console := server_console s @ [(js ''Todo update failed:'', e)]\<rparr>)"
    using updateTodo_fails_when_absent by blast
  have ok: "e = Error (js ''Todo with id '' @ show_int (in_id input) @ js '' not found'')"
    if "int4 (in_id input)" "\<forall>t. in_title input = Some t \<longrightarrow> \<not> has_nul t"
      "\<forall>d. in_description input = Some (Some d) \<longrightarrow> \<not> has_nul d"
    using updateTodo_absent [OF that assms, of now] u by simp
  have refused: "\<exists>fault. e = StoreError fault"
    if "\<not> int4 (in_id input) \<or> (\<exists>t. in_title input = Some t \<and> has_nul t) \<or>
      (\<exists>d. in_description input = Some (Some d) \<and> has_nul d)"
    using updateTodo_refused [OF that, of now s] u by auto
  have inj: "j = in_id input"
    if "js ''Todo with id '' @ show_int j @ js '' not found''
             = js ''Todo with id '' @ show_int (in_id input) @ js '' not found''" for j
    using that by (simp add: show_int_inj)
  from u have r: "rows (snd (updateTodo now input s)) = rows s"
    by simp
  from u r ok refused inj show ?thesis
    by blast
qed

text \<open>
  Witness for C2: id 999999 on a table holding the rows 1 and 2, which are both kept.
\<close>

theorem updateTodo_not_found_witness:
  "rows \<lparr>rows = [1 \<mapsto> \<lparr>todo_id = 1, title = js ''a'', description = None,
         completed = False, created_at = 1000, updated_at = 1000\<rparr>,
       2 \<mapsto> \<lparr>todo_id = 2, title = js ''b'', description = Some (js ''c''),
         completed = True, created_at = 1001, updated_at = 1001\<rparr>], server_console = []\<rparr> 999999 = None \<and>
   fst (updateTodo 2000 \<lparr>in_id = 999999, in_title = Some (js ''Updated Title''), in_description = None, in_completed = None\<rparr>
     \<lparr>rows = [1 \<mapsto> \<lparr>todo_id = 1, title = js ''a'', description = None,
         completed = False, created_at = 1000, updated_at = 1000\<rparr>,
       2 \<mapsto> \<lparr>todo_id = 2, title = js ''b'', description = Some (js ''c''),
         completed = True, created_at = 1001, updated_at = 1001\<rparr>], server_console = []\<rparr>)
   = Inl (Error (js ''Todo with id 999999 not found'')) \<and>
   rows (snd (updateTodo 2000 \<lparr>in_id = 999999, in_title = Some (js ''Updated Title''), in_description = None, in_completed = None\<rparr>
     \<lparr>rows = [1 \<mapsto> \<lparr>todo_id = 1, title = js ''a'', description = None,
         completed = False, created_at = 1000, updated_at = 1000\<rparr>,
       2 \<mapsto> \<lparr>todo_id = 2, title = js ''b'', description = Some (js ''c''),
         completed = True, created_at = 1001, updated_at = 1001\<rparr>], server_console = []\<rparr>))
   = [1 \<mapsto> \<lparr>todo_id = 1, title = js ''a'', description = None,
         completed = False, created_at = 1000, updated_at = 1000\<rparr>,
       2 \<mapsto> \<lparr>todo_id = 2, title = js ''b'', description = Some (js ''c''),
         completed = True, created_at = 1001, updated_at = 1001\<rparr>] \<and>
   server_console (snd (updateTodo 2000 \<lparr>in_id = 999999, in_title = Some (js ''Updated Title''), in_description = None, in_completed = None\<rparr>
     \<lparr>rows = [1 \<mapsto> \<lparr>todo_id = 1, title = js ''a'', description = None,
         completed = False, created_at = 1000, updated_at = 1000\<rparr>,
       2 \<mapsto> \<lparr>todo_id = 2, title = js ''b'', description = Some (js ''c''),
         completed = True, created_at = 1001, updated_at = 1001\<rparr>], server_console = []\<rparr>))
   = [(js ''Todo update failed:'', Error (js ''Todo with id 999999 not found''))]"
proof -
  let ?input = "\<lparr>in_id = 999999, in_title = Some (js ''Updated Title''), in_description = None, in_completed = None\<rparr>"
  let ?tbl = "[1 \<mapsto> \<lparr>todo_id = 1, title = js ''a'', description = None,
         completed = False, created_at = 1000, updated_at = 1000\<rparr>,
       2 \<mapsto> \<lparr>todo_id = 2, title = js ''b'', description = Some (js ''c''),
         completed = True, created_at = 1001, updated_at = 1001\<rparr>]"
  let ?s = "\<lparr>rows = ?tbl, server_console = []\<rparr>"
  have h: "rows ?s (in_id ?input) = None"
    by simp
  have ok: "int4 (in_id ?input) \<and> (\<forall>t. in_title ?input = Some t \<longrightarrow> \<not> has_nul t) \<and>
      (\<forall>d. in_description ?input = Some (Some d) \<longrightarrow> \<not> has_nul d)"
    by (simp add: literal_eval)
  have m: "js ''Todo with id '' @ show_int 999999 @ js '' not found'' = js ''Todo with id 999999 not found''"
    by (simp add: js_def show_int_def show_nat_small show_nat_large digit_def)
  from updateTodo_not_found [OF h, of 2000] obtain e where
    u: "updateTodo 2000 ?input ?s =
       (Inl e, ?s\<lparr>server_console := server_console ?s @ [(js ''Todo update failed:'', e)]\<rparr>)"
    and r: "rows (snd (updateTodo 2000 ?input ?s)) = rows ?s"
    and n: "int4 (in_id ?input) \<and> (\<forall>t. in_title ?input = Some t \<longrightarrow> \<not> has_nul t) \<and>
      (\<forall>d. in_description ?input = Some (Some d) \<longrightarrow> \<not> has_nul d) \<longrightarrow>
        e = Error (js ''Todo with id '' @ show_int (in_id ?input) @ js '' not found'') \<and>
        (\<forall>j. js ''Todo with id '' @ show_int j @ js '' not found''
             = js ''Todo with id '' @ show_int (in_id ?input) @ js '' not found'' \<longrightarrow> j = in_id ?input)"
    by (elim exE conjE)
  from mp [OF n ok] have "e = Error (js ''Todo with id '' @ show_int (in_id ?input) @ js '' not found'')"
    by (rule conjunct1)
  then have e: "e = Error (js ''Todo with id 999999 not found'')"
    using m by simp
  have a: "rows ?s 999999 = None"
    by simp
  from u have b: "fst (updateTodo 2000 ?input ?s) = Inl (Error (js ''Todo with id 999999 not found''))"
    unfolding e by simp
  from r have c: "rows (snd (updateTodo 2000 ?input ?s)) = ?tbl"
    by simp
  from u have d: "server_console (snd (updateTodo 2000 ?input ?s))
      = [(js ''Todo update failed:'', Error (js ''Todo with id 999999 not found''))]"
    unfolding e by simp
  from a b c d show ?thesis
    by (intro conjI)
qed

text \<open>
  C3: on an existing row, an update whose description is an explicit null leaves the
  row with no description, an update that omits the description leaves it as it was;
  title and completed are unchanged when the input omits them. (The statement is one
  the store accepts: the id is the id of a row, and no string given holds U+0000.)
\<close>

theorem updateTodo_description_null:
  assumes "int4 (in_id input)"
    and "\<forall>t. in_title input = Some t \<longrightarrow> \<not> has_nul t"
    and "\<forall>d. in_description input = Some (Some d) \<longrightarrow> \<not> has_nul d"
    and "rows s (in_id input) = Some old"
  shows "\<exists>new s'. updateTodo now input s = (Inr new, s') \<and>
     rows s' (in_id input) = Some new \<and>
     (in_description input = Some None \<longrightarrow> description new = None) \<and>
     (in_description input = None \<longrightarrow> description new = description old) \<and>
     (in_title input = None \<longrightarrow> title new = title old) \<and>
     (in_completed input = None \<longrightarrow> completed new = completed old)"
  unfolding updateTodo_found [OF assms] by simp

text \<open>
  Witness for C3: the handler's test, a row with a description updated with an
  explicit null and nothing else.
\<close>

theorem updateTodo_description_null_witness:
  "rows \<lparr>rows = [1 \<mapsto> \<lparr>todo_id = 1, title = js ''Test Todo'', description = Some (js ''Some description''),
         completed = False, created_at = 1000, updated_at = 1000\<rparr>], server_console = []\<rparr> 1
   = Some \<lparr>todo_id = 1, title = js ''Test Todo'', description = Some (js ''Some description''),
         completed = False, created_at = 1000, updated_at = 1000\<rparr> \<and>
   (\<exists>new s'. updateTodo 2000
      \<lparr>in_id = 1, in_title = None, in_description = Some None, in_completed = None\<rparr>
      \<lparr>rows = [1 \<mapsto> \<lparr>todo_id = 1, title = js ''Test Todo'', description = Some (js ''Some description''),
         completed = False, created_at = 1000, updated_at = 1000\<rparr>], server_console = []\<rparr>
      = (Inr new, s') \<and>
      rows s' 1 = Some new \<and>
      description new = None \<and> title new = js ''Test Todo'' \<and> completed new = False)"
proof -
  let ?old = "\<lparr>todo_id = 1, title = js ''Test Todo'', description = Some (js ''Some description''),
         completed = False, created_at = 1000, updated_at = 1000\<rparr>"
  let ?input = "\<lparr>in_id = 1, in_title = None, in_description = Some None, in_completed = None\<rparr>"
  let ?s = "\<lparr>rows = [1 \<mapsto> ?old], server_console = []\<rparr>"
  have h: "rows ?s (in_id ?input) = Some ?old"
    by simp
  have i: "int4 (in_id ?input)"
    by (simp add: int4_def)
  have t: "\<forall>t. in_title ?input = Some t \<longrightarrow> \<not> has_nul t"
    by simp
  have d: "\<forall>d. in_description ?input = Some (Some d) \<longrightarrow> \<not> has_nul d"
    by simp
  from updateTodo_description_null [OF i t d h, of 2000] h show ?thesis
    by simp
qed

section \<open>The delete handler\<close>

text \<open>
  C4, as stated, promises \<open>success = False\<close> as a normal outcome for every id that
  matches no row. The id 2147483648 matches no row; the store refuses the statement
  and the handler logs and rethrows the store's error.
\<close>

theorem deleteTodo_out_of_range_id:
  "rows \<lparr>rows = [1 \<mapsto> \<lparr>todo_id = 1, title = js ''a'', description = None,
         completed = False, created_at = 1000, updated_at = 1000\<rparr>], server_console = []\<rparr> 2147483648 = None \<and>
   deleteTodo \<lparr>del_id = 2147483648\<rparr>
     \<lparr>rows = [1 \<mapsto> \<lparr>todo_id = 1, title = js ''a'', description = None,
         completed = False, created_at = 1000, updated_at = 1000\<rparr>], server_console = []\<rparr>
   = (Inl (StoreError (IntegerOutOfRange 2147483648)),
      \<lparr>rows = [1 \<mapsto> \<lparr>todo_id = 1, title = js ''a'', description = None,
         completed = False, created_at = 1000, updated_at = 1000\<rparr>],
       server_console = [(js ''Todo deletion failed:'', StoreError (IntegerOutOfRange 2147483648))]\<rparr>) \<and>
   fst (deleteTodo \<lparr>del_id = 2147483648\<rparr>
     \<lparr>rows = [1 \<mapsto> \<lparr>todo_id = 1, title = js ''a'', description = None,
         completed = False, created_at = 1000, updated_at = 1000\<rparr>], server_console = []\<rparr>)
   \<noteq> Inr \<lparr>success = False\<rparr>"
  by (simp add: deleteTodo_def db_delete_def catch_log_def int4_def)

text \<open>
  C4 (amended): for an id within the range of the id column, \<^verbatim>\<open>deleteTodo\<close>
  does not fail; its success flag is true exactly when a row with that id existed;
  afterwards no row has that id and every other row is as it was, so that one row is
  removed on success and none otherwise; when no row matched, the state is unchanged.
  For an id outside that range the store's error is logged and rethrown, and the table
  is unchanged.
\<close>

theorem deleteTodo_success_iff_removed:
  "(int4 (del_id input) \<longrightarrow>
      (\<exists>s'. deleteTodo input s = (Inr \<lparr>success = (rows s (del_id input) \<noteq> None)\<rparr>, s') \<and>
         rows s' = (rows s)(del_id input := None) \<and>
         server_console s' = server_console s \<and>
         rows s' (del_id input) = None \<and>
         (\<forall>j. j \<noteq> del_id input \<longrightarrow> rows s' j = rows s j) \<and>
         dom (rows s') = dom (rows s) - {del_id input} \<and>
         (rows s (del_id input) = None \<longrightarrow> s' = s) \<and>
         (finite (dom (rows s)) \<longrightarrow>
            card (dom (rows s)) - card (dom (rows s'))
              = (if rows s (del_id input) \<noteq> None then 1 else 0)))) \<and>
   (\<not> int4 (del_id input) \<longrightarrow>
      deleteTodo input s =
        (Inl (StoreError (IntegerOutOfRange (del_id input))),
         s\<lparr>server_console := server_console s @
           [(js ''Todo deletion failed:'', StoreError (IntegerOutOfRange (del_id input)))]\<rparr>))"
proof (intro conjI impI)
  assume r: "int4 (del_id input)"
  let ?s' = "s\<lparr>rows := (rows s)(del_id input := None)\<rparr>"
  have d: "deleteTodo input s = (Inr \<lparr>success = (rows s (del_id input) \<noteq> None)\<rparr>, ?s')"
    using r by (cases "rows s (del_id input)")
      (simp_all add: deleteTodo_def db_delete_def catch_log_def fun_upd_idem)
  have same: "rows s (del_id input) = None \<Longrightarrow> ?s' = s"
    by (simp add: fun_upd_idem)
  have cnt: "finite (dom (rows s)) \<Longrightarrow>
      card (dom (rows s)) - card (dom (rows ?s')) = (if rows s (del_id input) \<noteq> None then 1 else 0)"
    using card_dom_remove [of "rows s" "del_id input"] by simp
  show "\<exists>s'. deleteTodo input s = (Inr \<lparr>success = (rows s (del_id input) \<noteq> None)\<rparr>, s') \<and>
         rows s' = (rows s)(del_id input := None) \<and>
         server_console s' = server_console s \<and>
         rows s' (del_id input) = None \<and>
         (\<forall>j. j \<noteq> del_id input \<longrightarrow> rows s' j = rows s j) \<and>
         dom (rows s') = dom (rows s) - {del_id input} \<and>
         (rows s (del_id input) = None \<longrightarrow> s' = s) \<and>
         (finite (dom (rows s)) \<longrightarrow>
            card (dom (rows s)) - card (dom (rows s'))
              = (if rows s (del_id input) \<noteq> None then 1 else 0))"
    unfolding d using same cnt by (intro exI [of _ ?s']) simp
next
  assume "\<not> int4 (del_id input)"
  then show "deleteTodo input s =
        (Inl (StoreError (IntegerOutOfRange (del_id input))),
         s\<lparr>server_console := server_console s @
           [(js ''Todo deletion failed:'', StoreError (IntegerOutOfRange (del_id input)))]\<rparr>)"
    by (simp add: deleteTodo_def db_delete_def catch_log_def)
qed

text \<open>
  Witness for C4: deleting id 2 from a table with ids 1 and 2, then id 99999, which
  is not there.
\<close>

theorem deleteTodo_success_iff_removed_witness:
  "int4 2 \<and> int4 99999 \<and>
   fst (deleteTodo \<lparr>del_id = 2\<rparr>
     \<lparr>rows = [1 \<mapsto> \<lparr>todo_id = 1, title = js ''a'', description = None,
         completed = False, created_at = 1000, updated_at = 1000\<rparr>,
       2 \<mapsto> \<lparr>todo_id = 2, title = js ''b'', description = None,
         completed = True, created_at = 1001, updated_at = 1001\<rparr>], server_console = []\<rparr>)
   = Inr \<lparr>success = True\<rparr> \<and>
   rows (snd (deleteTodo \<lparr>del_id = 2\<rparr>
     \<lparr>rows = [1 \<mapsto> \<lparr>todo_id = 1, title = js ''a'', description = None,
         completed = False, created_at = 1000, updated_at = 1000\<rparr>,
       2 \<mapsto> \<lparr>todo_id = 2, title = js ''b'', description = None,
         completed = True, created_at = 1001, updated_at = 1001\<rparr>], server_console = []\<rparr>)) 2 = None \<and>
   rows (snd (deleteTodo \<lparr>del_id = 2\<rparr>
     \<lparr>rows = [1 \<mapsto> \<lparr>todo_id = 1, title = js ''a'', description = None,
         completed = False, created_at = 1000, updated_at = 1000\<rparr>,
       2 \<mapsto> \<lparr>todo_id = 2, title = js ''b'', description = None,
         completed = True, created_at = 1001, updated_at = 1001\<rparr>], server_console = []\<rparr>)) 1
   = Some \<lparr>todo_id = 1, title = js ''a'', description = None,
         completed = False, created_at = 1000, updated_at = 1000\<rparr> \<and>
   deleteTodo \<lparr>del_id = 99999\<rparr>
     \<lparr>rows = [1 \<mapsto> \<lparr>todo_id = 1, title = js ''a'', description = None,
         completed = False, created_at = 1000, updated_at = 1000\<rparr>], server_console = []\<rparr>
   = (Inr \<lparr>success = False\<rparr>,
      \<lparr>rows = [1 \<mapsto> \<lparr>todo_id = 1, title = js ''a'', description = None,
         completed = False, created_at = 1000, updated_at = 1000\<rparr>], server_console = []\<rparr>)"
proof -
  let ?r1 = "\<lparr>todo_id = 1, title = js ''a'', description = None,
         completed = False, created_at = 1000, updated_at = 1000\<rparr>"
  let ?r2 = "\<lparr>todo_id = 2, title = js ''b'', description = None,
         completed = True, created_at = 1001, updated_at = 1001\<rparr>"
  let ?s = "\<lparr>rows = [1 \<mapsto> ?r1, 2 \<mapsto> ?r2], server_console = []\<rparr>"
  let ?t = "\<lparr>rows = [1 \<mapsto> ?r1], server_console = []\<rparr>"
  have i2: "int4 (del_id \<lparr>del_id = 2\<rparr>)" and i9: "int4 (del_id \<lparr>del_id = 99999\<rparr>)"
    by (simp_all add: int4_def)
  from mp [OF deleteTodo_success_iff_removed [of "\<lparr>del_id = 2\<rparr>" ?s, THEN conjunct1] i2]
  obtain s' where a: "deleteTodo \<lparr>del_id = 2\<rparr> ?s =
      (Inr \<lparr>success = (rows ?s (del_id \<lparr>del_id = 2\<rparr>) \<noteq> None)\<rparr>, s')"
    and b: "rows s' (del_id \<lparr>del_id = 2\<rparr>) = None"
    and c: "\<forall>j. j \<noteq> del_id \<lparr>del_id = 2\<rparr> \<longrightarrow> rows s' j = rows ?s j"
    by (elim exE conjE)
  from a have w1: "fst (deleteTodo \<lparr>del_id = 2\<rparr> ?s) = Inr \<lparr>success = True\<rparr>"
    by simp
  from a b have w2: "rows (snd (deleteTodo \<lparr>del_id = 2\<rparr> ?s)) 2 = None"
    by simp
  from c have "rows s' 1 = rows ?s 1"
    by simp
  with a have w3: "rows (snd (deleteTodo \<lparr>del_id = 2\<rparr> ?s)) 1 = Some ?r1"
    by simp
  from mp [OF deleteTodo_success_iff_removed [of "\<lparr>del_id = 99999\<rparr>" ?t, THEN conjunct1] i9]
  obtain t' where a': "deleteTodo \<lparr>del_id = 99999\<rparr> ?t =
      (Inr \<lparr>success = (rows ?t (del_id \<lparr>del_id = 99999\<rparr>) \<noteq> None)\<rparr>, t')"
    and b': "rows ?t (del_id \<lparr>del_id = 99999\<rparr>) = None \<longrightarrow> t' = ?t"
    by (elim exE conjE)
  from b' have "t' = ?t"
    by simp
  with a' have w4: "deleteTodo \<lparr>del_id = 99999\<rparr> ?t = (Inr \<lparr>success = False\<rparr>, ?t)"
    by simp
  from i2 i9 have w0: "int4 2" "int4 99999"
    by simp_all
  from w0 w1 w2 w3 w4 show ?thesis
    by (intro conjI)
qed

section \<open>The view: completion toggle\<close>

text \<open>
  C5: toggling a todo calls the update mutation with the todo's id and the negation
  of its completed value and no other field, and changes no local state before the
  outcome; on a server that holds the todo that input changes only \<open>completed\<close>
  (and \<open>updated_at\<close>). On success every item of the local list with that id is replaced
  by the returned record and the others are kept; on failure the error is logged, the
  list is as it was and the screen is the same.
\<close>

theorem handleToggleComplete_flips_completed:
  "handleToggleComplete_call todo v =
     (Some (UpdateTodo \<lparr>in_id = todo_id todo, in_title = None, in_description = None,
        in_completed = Some (\<not> completed todo)\<rparr>), v) \<and>
   (\<forall>s old now. int4 (todo_id todo) \<and> rows s (todo_id todo) = Some old \<longrightarrow>
      fst (updateTodo now \<lparr>in_id = todo_id todo, in_title = None, in_description = None,
        in_completed = Some (\<not> completed todo)\<rparr> s)
      = Inr (old\<lparr>completed := \<not> completed todo, updated_at := now\<rparr>)) \<and>
   handleToggleComplete_resume todo (Inr response) w =
     w\<lparr>todos := map (\<lambda>t. if todo_id t = todo_id todo then response else t) (todos w)\<rparr> \<and>
   length (todos (handleToggleComplete_resume todo (Inr response) w)) = length (todos w) \<and>
   (\<forall>i < length (todos w).
      todos (handleToggleComplete_resume todo (Inr response) w) ! i =
        (if todo_id (todos w ! i) = todo_id todo then response else todos w ! i)) \<and>
   handleToggleComplete_resume todo (Inl e) w =
     w\<lparr>console := console w @ [(js ''Failed to toggle todo:'', e)]\<rparr> \<and>
   todos (handleToggleComplete_resume todo (Inl e) w) = todos w \<and>
   TodoApp (handleToggleComplete_resume todo (Inl e) w) = TodoApp w"
proof -
  have srv: "fst (updateTodo now \<lparr>in_id = todo_id todo, in_title = None, in_description = None,
        in_completed = Some (\<not> completed todo)\<rparr> s)
      = Inr (old\<lparr>completed := \<not> completed todo, updated_at := now\<rparr>)"
    if "int4 (todo_id todo)" "rows s (todo_id todo) = Some old" for s old now
    using that by (simp add: updateTodo_found)
  have scr: "TodoApp (w\<lparr>console := c\<rparr>) = TodoApp w" for c
    by (simp add: TodoApp_def totalCount_def completedCount_def render_card_def)
  show ?thesis
    using srv by (simp add: handleToggleComplete_call_def handleToggleComplete_resume_def scr)
qed

text \<open>
  Witness for C5: a list of two todos, the first toggled to completed by a server that
  holds it.
\<close>

theorem handleToggleComplete_flips_completed_witness:
  "handleToggleComplete_call
     \<lparr>todo_id = 1, title = js ''a'', description = None, completed = False, created_at = 1000, updated_at = 1000\<rparr>
     initial_view
   = (Some (UpdateTodo \<lparr>in_id = 1, in_title = None, in_description = None, in_completed = Some True\<rparr>), initial_view) \<and>
   fst (updateTodo 2000 \<lparr>in_id = 1, in_title = None, in_description = None, in_completed = Some True\<rparr>
      \<lparr>rows = [1 \<mapsto> \<lparr>todo_id = 1, title = js ''a'', description = None, completed = False, created_at = 1000, updated_at = 1000\<rparr>],
        server_console = []\<rparr>)
   = Inr \<lparr>todo_id = 1, title = js ''a'', description = None, completed = True, created_at = 1000, updated_at = 2000\<rparr> \<and>
   todos (handleToggleComplete_resume
     \<lparr>todo_id = 1, title = js ''a'', description = None, completed = False, created_at = 1000, updated_at = 1000\<rparr>
     (Inr \<lparr>todo_id = 1, title = js ''a'', description = None, completed = True, created_at = 1000, updated_at = 2000\<rparr>)
     (initial_view\<lparr>todos :=
        [\<lparr>todo_id = 1, title = js ''a'', description = None, completed = False, created_at = 1000, updated_at = 1000\<rparr>,
         \<lparr>todo_id = 2, title = js ''b'', description = None, completed = False, created_at = 1000, updated_at = 1000\<rparr>]\<rparr>))
   = [\<lparr>todo_id = 1, title = js ''a'', description = None, completed = True, created_at = 1000, updated_at = 2000\<rparr>,
      \<lparr>todo_id = 2, title = js ''b'', description = None, completed = False, created_at = 1000, updated_at = 1000\<rparr>]"
proof -
  let ?t = "\<lparr>todo_id = 1, title = js ''a'', description = None, completed = False, created_at = 1000, updated_at = 1000\<rparr>"
  let ?u = "\<lparr>todo_id = 2, title = js ''b'', description = None, completed = False, created_at = 1000, updated_at = 1000\<rparr>"
  let ?r = "\<lparr>todo_id = 1, title = js ''a'', description = None, completed = True, created_at = 1000, updated_at = 2000\<rparr>"
  let ?s = "\<lparr>rows = [1 \<mapsto> ?t], server_console = []\<rparr>"
  let ?w = "initial_view\<lparr>todos := [?t, ?u]\<rparr>"
  note th = handleToggleComplete_flips_completed [of ?t initial_view ?r ?w]
  from th [THEN conjunct1] have a: "handleToggleComplete_call ?t initial_view =
     (Some (UpdateTodo \<lparr>in_id = todo_id ?t, in_title = None, in_description = None,
        in_completed = Some (\<not> completed ?t)\<rparr>), initial_view)"
    .
  from th [THEN conjunct2, THEN conjunct1] have b: "\<forall>s old now. int4 (todo_id ?t) \<and> rows s (todo_id ?t) = Some old \<longrightarrow>
      fst (updateTodo now \<lparr>in_id = todo_id ?t, in_title = None, in_description = None,
        in_completed = Some (\<not> completed ?t)\<rparr> s)
      = Inr (old\<lparr>completed := \<not> completed ?t, updated_at := now\<rparr>)"
    .
  have h: "int4 (todo_id ?t) \<and> rows ?s (todo_id ?t) = Some ?t"
    by (simp add: int4_def)
  from b h have b': "fst (updateTodo 2000 \<lparr>in_id = todo_id ?t, in_title = None, in_description = None,
        in_completed = Some (\<not> completed ?t)\<rparr> ?s)
      = Inr (?t\<lparr>completed := \<not> completed ?t, updated_at := 2000\<rparr>)"
    by blast
  from th [THEN conjunct2, THEN conjunct2, THEN conjunct1] have c: "handleToggleComplete_resume ?t (Inr ?r) ?w =
     ?w\<lparr>todos := map (\<lambda>t. if todo_id t = todo_id ?t then ?r else t) (todos ?w)\<rparr>"
    .
  from a b' c show ?thesis
    by simp
qed

section \<open>The view: create form\<close>

lemma step_keeps_loading:
  "isLoading v \<Longrightarrow> (\<And>outcome. e \<noteq> CreateDone outcome) \<Longrightarrow> isLoading (snd (step e v))"
proof (cases e)
  case SubmitForm
  assume "isLoading v"
  with SubmitForm show ?thesis by (simp add: TodoApp_def)
qed (auto simp add: loadTodos_call_def loadTodos_resume_def title_onChange_def
      description_onChange_def on_todo_card_def handleToggleComplete_call_def
      handleToggleComplete_resume_def startEdit_def edit_title_onChange_def
      edit_description_onChange_def handleEditSubmit_call_def handleEditSubmit_resume_def
      cancelEdit_def handleDelete_call_def handleDelete_resume_def
      split: sum.splits card.splits option.splits)

text \<open>
  C6: a submission whose title is empty after trimming makes no call and changes
  nothing; otherwise the create mutation is called with the form's data and the submit
  button is disabled, and it stays disabled (a further submit does nothing) until the
  outcome arrives. On success the returned todo is appended and the form is cleared; on
  failure the form and the list are as they were and the error is logged. Either way
  the button is enabled again.
\<close>

theorem handleSubmit_create_form:
  "(trim (ci_title (formData v)) = [] \<longrightarrow> handleSubmit_call v = (None, v)) \<and>
   (trim (ci_title (formData v)) \<noteq> [] \<longrightarrow>
      handleSubmit_call v = (Some (CreateTodo (formData v)), v\<lparr>isLoading := True\<rparr>) \<and>
      submit_disabled (TodoApp (snd (handleSubmit_call v)))) \<and>
   (\<forall>e. isLoading w \<and> (\<forall>outcome. e \<noteq> CreateDone outcome) \<longrightarrow>
      submit_disabled (TodoApp (snd (step e w))) \<and>
      (e = SubmitForm \<longrightarrow> step e w = (None, w))) \<and>
   handleSubmit_resume (Inr response) w =
     w\<lparr>todos := todos w @ [response],
       formData := \<lparr>ci_title = [], ci_description = None\<rparr>, isLoading := False\<rparr> \<and>
   \<not> submit_disabled (TodoApp (handleSubmit_resume outcome w)) \<and>
   handleSubmit_resume (Inl err) w =
     w\<lparr>console := console w @ [(js ''Failed to create todo:'', err)], isLoading := False\<rparr> \<and>
   formData (handleSubmit_resume (Inl err) w) = formData w \<and>
   todos (handleSubmit_resume (Inl err) w) = todos w"
proof -
  have dis: "submit_disabled (TodoApp x) = isLoading x" for x
    by (simp add: TodoApp_def)
  have fly: "submit_disabled (TodoApp (snd (step e w))) \<and> (e = SubmitForm \<longrightarrow> step e w = (None, w))"
    if "isLoading w" "\<forall>outcome. e \<noteq> CreateDone outcome" for e
    using that step_keeps_loading [of w e] by (simp add: dis)
  have res: "\<not> submit_disabled (TodoApp (handleSubmit_resume outcome w))"
    by (simp add: dis handleSubmit_resume_def Let_def split: sum.splits)
  show ?thesis
    using fly res by (simp add: handleSubmit_call_def handleSubmit_resume_def dis)
qed

text \<open>
  Witness for C6: a title of two spaces is rejected; the title \<^verbatim>\<open>" Test "\<close> is
  sent, and typing or submitting while the call is in flight leaves the button disabled.
\<close>

theorem handleSubmit_create_form_witness:
  "trim (ci_title (formData (initial_view\<lparr>formData := \<lparr>ci_title = js ''  '', ci_description = None\<rparr>\<rparr>))) = [] \<and>
   handleSubmit_call (initial_view\<lparr>formData := \<lparr>ci_title = js ''  '', ci_description = None\<rparr>\<rparr>)
     = (None, initial_view\<lparr>formData := \<lparr>ci_title = js ''  '', ci_description = None\<rparr>\<rparr>) \<and>
   trim (ci_title (formData (initial_view\<lparr>formData := \<lparr>ci_title = js '' Test '', ci_description = None\<rparr>\<rparr>))) = js ''Test'' \<and>
   handleSubmit_call (initial_view\<lparr>formData := \<lparr>ci_title = js '' Test '', ci_description = None\<rparr>\<rparr>)
     = (Some (CreateTodo \<lparr>ci_title = js '' Test '', ci_description = None\<rparr>),
        initial_view\<lparr>formData := \<lparr>ci_title = js '' Test '', ci_description = None\<rparr>, isLoading := True\<rparr>) \<and>
   submit_disabled (TodoApp (snd (step (TitleInput (js ''x''))
     (initial_view\<lparr>formData := \<lparr>ci_title = js '' Test '', ci_description = None\<rparr>, isLoading := True\<rparr>)))) \<and>
   step SubmitForm (initial_view\<lparr>formData := \<lparr>ci_title = js '' Test '', ci_description = None\<rparr>, isLoading := True\<rparr>)
     = (None, initial_view\<lparr>formData := \<lparr>ci_title = js '' Test '', ci_description = None\<rparr>, isLoading := True\<rparr>)"
proof -
  let ?blank = "initial_view\<lparr>formData := \<lparr>ci_title = js ''  '', ci_description = None\<rparr>\<rparr>"
  let ?test = "initial_view\<lparr>formData := \<lparr>ci_title = js '' Test '', ci_description = None\<rparr>\<rparr>"
  let ?flying = "?test\<lparr>isLoading := True\<rparr>"
  have b: "trim (ci_title (formData ?blank)) = []"
    by (simp add: trim_def is_white_space_def js_def)
  have t: "trim (ci_title (formData ?test)) = js ''Test''"
    by (simp add: trim_def is_white_space_def js_def)
  then have t': "trim (ci_title (formData ?test)) \<noteq> []"
    by (simp add: js_def)
  from handleSubmit_create_form [of ?blank, THEN conjunct1] b
  have c1: "handleSubmit_call ?blank = (None, ?blank)"
    by (rule mp)
  from handleSubmit_create_form [of ?test, THEN conjunct2, THEN conjunct1] t'
  have "handleSubmit_call ?test = (Some (CreateTodo (formData ?test)), ?test\<lparr>isLoading := True\<rparr>) \<and>
      submit_disabled (TodoApp (snd (handleSubmit_call ?test)))"
    by (rule mp)
  then have c2: "handleSubmit_call ?test
      = (Some (CreateTodo \<lparr>ci_title = js '' Test '', ci_description = None\<rparr>), ?flying)"
    by simp
  note fly = handleSubmit_create_form [of ?test ?flying, THEN conjunct2, THEN conjunct2, THEN conjunct1]
  have l: "isLoading ?flying"
    by simp
  from fly [THEN spec, of "TitleInput (js ''x'')"] l
  have c3: "submit_disabled (TodoApp (snd (step (TitleInput (js ''x'')) ?flying)))"
    by simp
  from fly [THEN spec, of SubmitForm] l
  have c4: "step SubmitForm ?flying = (None, ?flying)"
    by simp
  from b c1 t c2 c3 c4 show ?thesis
    by (intro conjI)
qed

section \<open>The view: placeholder and counters\<close>

text \<open>
  C7: the placeholder is rendered exactly when the local list is empty; the badges are
  rendered exactly when the total count is positive; and the badges show the length of
  the list, the number of completed todos, and their difference, which is the number of
  todos not completed.
\<close>

theorem TodoApp_placeholder_and_counters:
  "(shown_list (TodoApp v) = NoTodosYet \<longleftrightarrow> todos v = []) \<and>
   (summary (TodoApp v) \<noteq> None \<longleftrightarrow> totalCount v > 0) \<and>
   (summary (TodoApp v) = None \<longleftrightarrow> todos v = []) \<and>
   totalCount v = int (length (todos v)) \<and>
   (\<forall>b. summary (TodoApp v) = Some b \<longrightarrow>
      badge_total b = int (length (todos v)) \<and>
      badge_completed b = int (length (filter completed (todos v))) \<and>
      badge_remaining b = badge_total b - badge_completed b \<and>
      badge_remaining b = int (length (filter (\<lambda>t. \<not> completed t) (todos v))) \<and>
      0 \<le> badge_remaining b)"
proof -
  have "length (todos v) = length (filter completed (todos v)) + length (filter (\<lambda>t. \<not> completed t) (todos v))"
    by (rule sum_length_filter_compl [symmetric])
  then have rem: "int (length (todos v)) - int (length (filter completed (todos v)))
      = int (length (filter (\<lambda>t. \<not> completed t) (todos v)))"
    by linarith
  show ?thesis
    using rem by (auto simp add: TodoApp_def totalCount_def completedCount_def)
qed

text \<open>Witness for C7: the empty list, and a list of one completed and one open todo.\<close>

theorem TodoApp_placeholder_and_counters_witness:
  "shown_list (TodoApp initial_view) = NoTodosYet \<and>
   summary (TodoApp initial_view) = None \<and>
   summary (TodoApp (initial_view\<lparr>todos :=
       [\<lparr>todo_id = 1, title = js ''a'', description = None, completed = True, created_at = 1000, updated_at = 1000\<rparr>,
        \<lparr>todo_id = 2, title = js ''b'', description = None, completed = False, created_at = 1000, updated_at = 1000\<rparr>]\<rparr>))
     = Some \<lparr>badge_total = 2, badge_completed = 1, badge_remaining = 1\<rparr> \<and>
   badge_remaining \<lparr>badge_total = 2, badge_completed = 1, badge_remaining = 1\<rparr>
     = int (length (filter (\<lambda>t. \<not> completed t) (todos (initial_view\<lparr>todos :=
       [\<lparr>todo_id = 1, title = js ''a'', description = None, completed = True, created_at = 1000, updated_at = 1000\<rparr>,
        \<lparr>todo_id = 2, title = js ''b'', description = None, completed = False, created_at = 1000, updated_at = 1000\<rparr>]\<rparr>))))"
proof -
  let ?v = "initial_view\<lparr>todos :=
       [\<lparr>todo_id = 1, title = js ''a'', description = None, completed = True, created_at = 1000, updated_at = 1000\<rparr>,
        \<lparr>todo_id = 2, title = js ''b'', description = None, completed = False, created_at = 1000, updated_at = 1000\<rparr>]\<rparr>"
  let ?b = "\<lparr>badge_total = 2, badge_completed = 1, badge_remaining = 1\<rparr>"
  have e: "todos initial_view = []"
    by (simp add: initial_view_def)
  from TodoApp_placeholder_and_counters [of initial_view] e
  have p: "shown_list (TodoApp initial_view) = NoTodosYet" and n: "summary (TodoApp initial_view) = None"
    by simp_all
  have s: "summary (TodoApp ?v) = Some ?b"
    by (simp add: TodoApp_def totalCount_def completedCount_def)
  from TodoApp_placeholder_and_counters [of ?v, THEN conjunct2, THEN conjunct2, THEN conjunct2,
      THEN conjunct2, THEN spec, of ?b] s
  have "badge_remaining ?b = int (length (filter (\<lambda>t. \<not> completed t) (todos ?v)))"
    by blast
  with p n s show ?thesis
    by (intro conjI)
qed

section \<open>The theme toggle\<close>

text \<open>
  C8: toggling twice returns to the original mode; a toggle changes the mode and
  persists the new one, so that a session started from the persisted preference is in
  that mode; the button's click is the toggle, its title names the mode a click
  switches to, and its icon is the moon exactly when that mode is dark and the sun
  exactly when it is light.
\<close>

theorem toggleTheme_twice_and_persisted:
  "theme (toggleTheme (toggleTheme c)) = theme c \<and>
   theme (toggleTheme c) \<noteq> theme c \<and>
   persisted (toggleTheme c) = Some (theme (toggleTheme c)) \<and>
   start_session (persisted (toggleTheme c)) = toggleTheme c \<and>
   button_onClick (ThemeToggle c) = toggleTheme c \<and>
   button_title (ThemeToggle c) = js ''Switch to '' @ theme_string (theme (toggleTheme c)) @ js '' mode'' \<and>
   (button_icon (ThemeToggle c) = Moon \<longleftrightarrow> theme (toggleTheme c) = Dark) \<and>
   (button_icon (ThemeToggle c) = Sun \<longleftrightarrow> theme (toggleTheme c) = Light)"
  by (cases "theme c")
    (simp_all add: toggleTheme_def start_session_def ThemeToggle_def theme_string_def js_def)

section \<open>The view: deletion\<close>

text \<open>
  C9: when the delete mutation resolves, the items with the given id are removed from
  the local list whatever the returned success flag is; in particular, when the server
  holds no row of that id it answers \<open>success = False\<close> and the item is removed
  from the list all the same.
\<close>

theorem handleDelete_ignores_success:
  "handleDelete_call todoId v = (Some (DeleteTodo \<lparr>del_id = todoId\<rparr>), v) \<and>
   handleDelete_resume todoId (Inr result) w =
     w\<lparr>todos := filter (\<lambda>t. todo_id t \<noteq> todoId) (todos w)\<rparr> \<and>
   handleDelete_resume todoId (Inr result) w = handleDelete_resume todoId (Inr result') w \<and>
   (int4 todoId \<and> rows s todoId = None \<longrightarrow>
      fst (deleteTodo \<lparr>del_id = todoId\<rparr> s) = Inr \<lparr>success = False\<rparr> \<and>
      todos (handleDelete_resume todoId (fst (deleteTodo \<lparr>del_id = todoId\<rparr> s)) w)
        = filter (\<lambda>t. todo_id t \<noteq> todoId) (todos w))"
proof -
  have call: "handleDelete_call todoId v = (Some (DeleteTodo \<lparr>del_id = todoId\<rparr>), v)"
    by (simp add: handleDelete_call_def)
  have resolved: "handleDelete_resume todoId (Inr r) w =
      w\<lparr>todos := filter (\<lambda>t. todo_id t \<noteq> todoId) (todos w)\<rparr>" for r
    by (simp add: handleDelete_resume_def)
  have absent: "fst (deleteTodo \<lparr>del_id = todoId\<rparr> s) = Inr \<lparr>success = False\<rparr>"
    if "int4 todoId" "rows s todoId = None"
    using that by (simp add: deleteTodo_def db_delete_def catch_log_def)
  show ?thesis
    using call resolved absent by simp
qed

text \<open>
  Witness for C9: the list shows todos 7 and 8, the server's table holds only 8, and
  deleting 7 removes it from the list.
\<close>

theorem handleDelete_ignores_success_witness:
  "rows \<lparr>rows = [8 \<mapsto> \<lparr>todo_id = 8, title = js ''b'', description = None, completed = False, created_at = 1000, updated_at = 1000\<rparr>], server_console = []\<rparr> 7 = None \<and>
   fst (deleteTodo \<lparr>del_id = 7\<rparr> \<lparr>rows = [8 \<mapsto> \<lparr>todo_id = 8, title = js ''b'', description = None, completed = False, created_at = 1000, updated_at = 1000\<rparr>], server_console = []\<rparr>) = Inr \<lparr>success = False\<rparr> \<and>
   todos (handleDelete_resume 7 (fst (deleteTodo \<lparr>del_id = 7\<rparr> \<lparr>rows = [8 \<mapsto> \<lparr>todo_id = 8, title = js ''b'', description = None, completed = False, created_at = 1000, updated_at = 1000\<rparr>], server_console = []\<rparr>))
     (initial_view\<lparr>todos :=
        [\<lparr>todo_id = 7, title = js ''a'', description = None, completed = False, created_at = 1000, updated_at = 1000\<rparr>,
         \<lparr>todo_id = 8, title = js ''b'', description = None, completed = False, created_at = 1000, updated_at = 1000\<rparr>]\<rparr>))
   = [\<lparr>todo_id = 8, title = js ''b'', description = None, completed = False, created_at = 1000, updated_at = 1000\<rparr>]"
proof -
  let ?s = "\<lparr>rows = [8 \<mapsto> \<lparr>todo_id = 8, title = js ''b'', description = None, completed = False, created_at = 1000, updated_at = 1000\<rparr>], server_console = []\<rparr>"
  let ?w = "initial_view\<lparr>todos :=
        [\<lparr>todo_id = 7, title = js ''a'', description = None, completed = False, created_at = 1000, updated_at = 1000\<rparr>,
         \<lparr>todo_id = 8, title = js ''b'', description = None, completed = False, created_at = 1000, updated_at = 1000\<rparr>]\<rparr>"
  have h: "int4 7 \<and> rows ?s 7 = None"
    by (simp add: int4_def)
  from handleDelete_ignores_success [of 7 initial_view \<open>\<lparr>success = False\<rparr>\<close> ?w \<open>\<lparr>success = True\<rparr>\<close> ?s,
      THEN conjunct2, THEN conjunct2, THEN conjunct2] h
  have "fst (deleteTodo \<lparr>del_id = 7\<rparr> ?s) = Inr \<lparr>success = False\<rparr> \<and>
      todos (handleDelete_resume 7 (fst (deleteTodo \<lparr>del_id = 7\<rparr> ?s)) ?w)
        = filter (\<lambda>t. todo_id t \<noteq> 7) (todos ?w)"
    by (rule mp)
  then have a: "fst (deleteTodo \<lparr>del_id = 7\<rparr> ?s) = Inr \<lparr>success = False\<rparr>"
    and b: "todos (handleDelete_resume 7 (fst (deleteTodo \<lparr>del_id = 7\<rparr> ?s)) ?w)
        = filter (\<lambda>t. todo_id t \<noteq> 7) (todos ?w)"
    by (rule conjunct1, rule conjunct2)
  have c: "filter (\<lambda>t. todo_id t \<noteq> 7) (todos ?w)
      = [\<lparr>todo_id = 8, title = js ''b'', description = None, completed = False, created_at = 1000, updated_at = 1000\<rparr>]"
    by simp
  have d: "rows ?s 7 = None"
    by simp
  from d a b [unfolded c] show ?thesis
    by (intro conjI)
qed

section \<open>The view: descriptions sent to the server\<close>

lemma or_null_not_empty: "or_null s \<noteq> Some []"
  by (simp add: or_null_def)

lemma on_todo_card_cases:
  "on_todo_card i v handler = (c, v') \<Longrightarrow>
     (c = None \<and> v' = v) \<or> (i < length (todos v) \<and> handler (todos v ! i) = (c, v'))"
  by (auto simp add: on_todo_card_def render_card_def split: if_splits card.splits option.splits)

lemma step_create_ok: "ci_description (formData v) \<noteq> Some [] \<Longrightarrow> ci_description (formData (snd (step e v))) \<noteq> Some []"
proof (cases e)
  case (CheckboxClicked i)
  assume "ci_description (formData v) \<noteq> Some []"
  with CheckboxClicked on_todo_card_cases [of i v "\<lambda>todo. handleToggleComplete_call todo v"] show ?thesis
    by (cases "on_todo_card i v (\<lambda>todo. handleToggleComplete_call todo v)")
      (auto simp add: handleToggleComplete_call_def)
next
  case (EditClicked i)
  assume "ci_description (formData v) \<noteq> Some []"
  with EditClicked on_todo_card_cases [of i v "\<lambda>todo. (None, startEdit todo v)"] show ?thesis
    by (cases "on_todo_card i v (\<lambda>todo. (None, startEdit todo v))")
      (auto simp add: startEdit_def)
next
  case (DeleteConfirmed i)
  assume "ci_description (formData v) \<noteq> Some []"
  with DeleteConfirmed on_todo_card_cases [of i v "\<lambda>todo. handleDelete_call (todo_id todo) v"] show ?thesis
    by (cases "on_todo_card i v (\<lambda>todo. handleDelete_call (todo_id todo) v)")
      (auto simp add: handleDelete_call_def)
qed (auto simp add: loadTodos_call_def loadTodos_resume_def title_onChange_def
      description_onChange_def handleSubmit_call_def handleSubmit_resume_def Let_def
      handleToggleComplete_resume_def edit_title_onChange_def
      edit_description_onChange_def handleEditSubmit_call_def handleEditSubmit_resume_def
      cancelEdit_def handleDelete_resume_def or_null_not_empty
      split: sum.splits option.splits)

lemma step_create_call:
  "ci_description (formData v) \<noteq> Some [] \<Longrightarrow> fst (step e v) = Some (CreateTodo ci) \<Longrightarrow> ci_description ci \<noteq> Some []"
proof (cases e)
  case (CheckboxClicked i)
  assume "fst (step e v) = Some (CreateTodo ci)"
  with CheckboxClicked on_todo_card_cases [of i v "\<lambda>todo. handleToggleComplete_call todo v"] show ?thesis
    by (cases "on_todo_card i v (\<lambda>todo. handleToggleComplete_call todo v)")
      (auto simp add: handleToggleComplete_call_def)
next
  case (EditClicked i)
  assume "fst (step e v) = Some (CreateTodo ci)"
  with EditClicked on_todo_card_cases [of i v "\<lambda>todo. (None, startEdit todo v)"] show ?thesis
    by (cases "on_todo_card i v (\<lambda>todo. (None, startEdit todo v))") auto
next
  case (DeleteConfirmed i)
  assume "fst (step e v) = Some (CreateTodo ci)"
  with DeleteConfirmed on_todo_card_cases [of i v "\<lambda>todo. handleDelete_call (todo_id todo) v"] show ?thesis
    by (cases "on_todo_card i v (\<lambda>todo. handleDelete_call (todo_id todo) v)")
      (auto simp add: handleDelete_call_def)
qed (auto simp add: loadTodos_call_def handleSubmit_call_def handleEditSubmit_call_def
      split: if_splits option.splits)


lemma step_edit_ok:
  assumes "ef_description (editFormData v) \<noteq> Some []"
    and "\<forall>t \<in> set (todos v). description t \<noteq> Some []"
    and "\<forall>t \<in> set (delivered e). description t \<noteq> Some []"
  shows "ef_description (editFormData (snd (step e v))) \<noteq> Some [] \<and>
     (\<forall>t \<in> set (todos (snd (step e v))). description t \<noteq> Some [])"
proof (cases e)
  case (CheckboxClicked i)
  with assms on_todo_card_cases [of i v "\<lambda>todo. handleToggleComplete_call todo v"] show ?thesis
    by (cases "on_todo_card i v (\<lambda>todo. handleToggleComplete_call todo v)")
      (auto simp add: handleToggleComplete_call_def)
next
  case (EditClicked i)
  with assms on_todo_card_cases [of i v "\<lambda>todo. (None, startEdit todo v)"] show ?thesis
    by (cases "on_todo_card i v (\<lambda>todo. (None, startEdit todo v))")
      (auto simp add: startEdit_def)
next
  case (DeleteConfirmed i)
  with assms on_todo_card_cases [of i v "\<lambda>todo. handleDelete_call (todo_id todo) v"] show ?thesis
    by (cases "on_todo_card i v (\<lambda>todo. handleDelete_call (todo_id todo) v)")
      (auto simp add: handleDelete_call_def)
next
  case (LoadDone outcome)
  with assms show ?thesis
    by (cases outcome) (auto simp add: loadTodos_resume_def)
next
  case (CreateDone outcome)
  with assms show ?thesis
    by (cases outcome) (auto simp add: handleSubmit_resume_def)
next
  case (ToggleDone todo outcome)
  with assms show ?thesis
    by (cases outcome) (auto simp add: handleToggleComplete_resume_def)
next
  case (EditDone et outcome)
  with assms show ?thesis
    by (cases outcome) (auto simp add: handleEditSubmit_resume_def)
next
  case (DeleteDone todoId outcome)
  with assms show ?thesis
    by (cases outcome) (auto simp add: handleDelete_resume_def)
qed (use assms in \<open>auto simp add: loadTodos_call_def title_onChange_def
      description_onChange_def handleSubmit_call_def edit_title_onChange_def
      edit_description_onChange_def handleEditSubmit_call_def
      cancelEdit_def or_null_not_empty
      split: option.splits\<close>)

lemma step_edit_call:
  "ef_description (editFormData v) \<noteq> Some [] \<Longrightarrow> fst (step e v) = Some (UpdateTodo ui) \<Longrightarrow>
     in_description ui \<noteq> Some (Some [])"
proof (cases e)
  case (CheckboxClicked i)
  assume "fst (step e v) = Some (UpdateTodo ui)"
  with CheckboxClicked on_todo_card_cases [of i v "\<lambda>todo. handleToggleComplete_call todo v"] show ?thesis
    by (cases "on_todo_card i v (\<lambda>todo. handleToggleComplete_call todo v)")
      (auto simp add: handleToggleComplete_call_def)
next
  case (EditClicked i)
  assume "fst (step e v) = Some (UpdateTodo ui)"
  with EditClicked on_todo_card_cases [of i v "\<lambda>todo. (None, startEdit todo v)"] show ?thesis
    by (cases "on_todo_card i v (\<lambda>todo. (None, startEdit todo v))") auto
next
  case (DeleteConfirmed i)
  assume "fst (step e v) = Some (UpdateTodo ui)"
  with DeleteConfirmed on_todo_card_cases [of i v "\<lambda>todo. handleDelete_call (todo_id todo) v"] show ?thesis
    by (cases "on_todo_card i v (\<lambda>todo. handleDelete_call (todo_id todo) v)")
      (auto simp add: handleDelete_call_def)
qed (auto simp add: loadTodos_call_def handleSubmit_call_def handleEditSubmit_call_def
      split: if_splits option.splits)

lemma run_create_calls:
  "ci_description (formData v) \<noteq> Some [] \<Longrightarrow> CreateTodo ci \<in> set (fst (run es v)) \<Longrightarrow>
     ci_description ci \<noteq> Some []"
proof (induction es arbitrary: v)
  case Nil
  then show ?case by simp
next
  case (Cons e es)
  obtain c v' where s: "step e v = (c, v')"
    by (cases "step e v")
  from Cons.prems(1) step_create_ok [of v e] s have ok: "ci_description (formData v') \<noteq> Some []"
    by simp
  from Cons.prems(2) s have "c = Some (CreateTodo ci) \<or> CreateTodo ci \<in> set (fst (run es v'))"
    by (auto simp add: split_beta split: option.splits)
  then show ?case
  proof
    assume "c = Some (CreateTodo ci)"
    with s step_create_call [of v e ci] Cons.prems(1) show ?thesis
      by simp
  next
    assume "CreateTodo ci \<in> set (fst (run es v'))"
    with ok show ?thesis
      by (rule Cons.IH)
  qed
qed

lemma run_update_calls:
  "ef_description (editFormData v) \<noteq> Some [] \<Longrightarrow>
   \<forall>t \<in> set (todos v). description t \<noteq> Some [] \<Longrightarrow>
   \<forall>e \<in> set es. \<forall>t \<in> set (delivered e). description t \<noteq> Some [] \<Longrightarrow>
   UpdateTodo ui \<in> set (fst (run es v)) \<Longrightarrow>
   in_description ui \<noteq> Some (Some [])"
proof (induction es arbitrary: v)
  case Nil
  then show ?case by simp
next
  case (Cons e es)
  obtain c v' where s: "step e v = (c, v')"
    by (cases "step e v")
  from Cons.prems(3) have de: "\<forall>t \<in> set (delivered e). description t \<noteq> Some []"
    and des: "\<forall>e \<in> set es. \<forall>t \<in> set (delivered e). description t \<noteq> Some []"
    by simp_all
  from step_edit_ok [OF Cons.prems(1) Cons.prems(2) de] s
  have ok1: "ef_description (editFormData v') \<noteq> Some []"
    and ok2: "\<forall>t \<in> set (todos v'). description t \<noteq> Some []"
    by simp_all
  from Cons.prems(4) s have "c = Some (UpdateTodo ui) \<or> UpdateTodo ui \<in> set (fst (run es v'))"
    by (auto simp add: split_beta split: option.splits)
  then show ?case
  proof
    assume "c = Some (UpdateTodo ui)"
    with s step_edit_call [of v e ui] Cons.prems(1) show ?thesis
      by simp
  next
    assume "UpdateTodo ui \<in> set (fst (run es v'))"
    with ok1 ok2 des show ?thesis
      by (rule Cons.IH)
  qed
qed

lemmas view_eval = loadTodos_call_def loadTodos_resume_def title_onChange_def
  description_onChange_def handleSubmit_call_def handleSubmit_resume_def on_todo_card_def
  render_card_def edit_form_shown_def handleToggleComplete_call_def handleToggleComplete_resume_def
  startEdit_def edit_title_onChange_def edit_description_onChange_def handleEditSubmit_call_def
  handleEditSubmit_resume_def cancelEdit_def handleDelete_call_def handleDelete_resume_def
  TodoApp_def totalCount_def completedCount_def initial_view_def or_null_def trim_def
  is_white_space_def js_def Let_def

text \<open>
  C10, as stated, says that no edit-form submission sends the empty string. The edit
  form starts from the description of the todo being edited: when the list loaded from
  the server holds a todo whose description is the empty string, clicking edit and
  submitting sends the empty string.
\<close>

theorem edit_form_sends_empty_description:
  "fst (run [Mounted,
        LoadDone (Inr [\<lparr>todo_id = 1, title = js ''a'', description = Some [], completed = False,
           created_at = 1000, updated_at = 1000\<rparr>]),
        EditClicked 0, EditSubmitForm] initial_view)
   = [GetTodos,
      UpdateTodo \<lparr>in_id = 1, in_title = Some (js ''a''), in_description = Some (Some []),
        in_completed = None\<rparr>]"
  by (simp add: view_eval)

text \<open>
  C10 (amended): both textareas store null for an empty input and the input itself
  otherwise, and a change of the title leaves the description of the edit form alone.
  \<^verbatim>\<open>startEdit\<close> copies the todo's description unchanged into the edit form, and
  an edit submission sends the description the edit form holds; so submitting right
  after \<^verbatim>\<open>startEdit\<close> sends the todo's own description, the empty string when it
  is the empty string. Every create call the view makes, after any sequence of events
  from the initial state, carries a description that is null or a non-empty string;
  and when no todo received from the server has the empty string as description, no
  update call the view makes carries the empty string as description.
\<close>

theorem view_sends_no_empty_description:
  "ci_description (formData (description_onChange s v)) = (if s = [] then None else Some s) \<and>
   ef_description (editFormData (edit_description_onChange s v)) = (if s = [] then None else Some s) \<and>
   ef_description (editFormData (edit_title_onChange s v)) = ef_description (editFormData v) \<and>
   ef_description (editFormData (startEdit todo v)) = description todo \<and>
   (\<forall>et. editingTodo v = Some et \<and> trim (ef_title (editFormData v)) \<noteq> [] \<longrightarrow>
      handleEditSubmit_call v =
        (Some (UpdateTodo \<lparr>in_id = todo_id et, in_title = Some (ef_title (editFormData v)),
           in_description = Some (ef_description (editFormData v)), in_completed = None\<rparr>), v)) \<and>
   (trim (title todo) \<noteq> [] \<longrightarrow>
      handleEditSubmit_call (startEdit todo v) =
        (Some (UpdateTodo \<lparr>in_id = todo_id todo, in_title = Some (title todo),
           in_description = Some (description todo), in_completed = None\<rparr>), startEdit todo v)) \<and>
   (\<forall>ci. CreateTodo ci \<in> set (fst (run es initial_view)) \<longrightarrow>
      ci_description ci = None \<or> (\<exists>d. ci_description ci = Some d \<and> d \<noteq> [])) \<and>
   ((\<forall>e \<in> set es. \<forall>t \<in> set (delivered e). description t \<noteq> Some []) \<longrightarrow>
      (\<forall>ui. UpdateTodo ui \<in> set (fst (run es initial_view)) \<longrightarrow>
         in_description ui \<noteq> Some (Some [])))"
proof -
  have a: "ci_description ci = None \<or> (\<exists>d. ci_description ci = Some d \<and> d \<noteq> [])"
    if "CreateTodo ci \<in> set (fst (run es initial_view))" for ci
  proof -
    have "ci_description (formData initial_view) \<noteq> Some []"
      by (simp add: initial_view_def)
    from this that have "ci_description ci \<noteq> Some []"
      by (rule run_create_calls)
    then show ?thesis
      by (cases "ci_description ci") simp_all
  qed
  have b: "in_description ui \<noteq> Some (Some [])"
    if "\<forall>e \<in> set es. \<forall>t \<in> set (delivered e). description t \<noteq> Some []"
      and "UpdateTodo ui \<in> set (fst (run es initial_view))" for ui
  proof -
    have "ef_description (editFormData initial_view) \<noteq> Some []"
      and "\<forall>t \<in> set (todos initial_view). description t \<noteq> Some []"
      by (simp_all add: initial_view_def)
    from this that show ?thesis
      by (rule run_update_calls)
  qed
  have c: "handleEditSubmit_call v =
        (Some (UpdateTodo \<lparr>in_id = todo_id et, in_title = Some (ef_title (editFormData v)),
           in_description = Some (ef_description (editFormData v)), in_completed = None\<rparr>), v)"
    if "editingTodo v = Some et" "trim (ef_title (editFormData v)) \<noteq> []" for et
    using that by (simp add: handleEditSubmit_call_def)
  have d: "handleEditSubmit_call (startEdit todo v) =
        (Some (UpdateTodo \<lparr>in_id = todo_id todo, in_title = Some (title todo),
           in_description = Some (description todo), in_completed = None\<rparr>), startEdit todo v)"
    if "trim (title todo) \<noteq> []"
    using that by (simp add: handleEditSubmit_call_def startEdit_def)
  have e: "ci_description (formData (description_onChange s v)) = (if s = [] then None else Some s)"
    "ef_description (editFormData (edit_description_onChange s v)) = (if s = [] then None else Some s)"
    "ef_description (editFormData (edit_title_onChange s v)) = ef_description (editFormData v)"
    "ef_description (editFormData (startEdit todo v)) = description todo"
    by (simp_all add: description_onChange_def edit_description_onChange_def
        edit_title_onChange_def startEdit_def or_null_def)
  from e c d a b show ?thesis
    by blast
qed

text \<open>
  Witness for C10: editing a todo whose description is the empty string and
  submitting sends the empty string; and in a run where a todo is created with an
  emptied description, then edited with the description typed and emptied again, both
  calls carry null.
\<close>

theorem view_sends_no_empty_description_witness:
  "handleEditSubmit_call (startEdit
      \<lparr>todo_id = 1, title = js ''a'', description = Some [], completed = False,
         created_at = 1000, updated_at = 1000\<rparr> initial_view)
   = (Some (UpdateTodo \<lparr>in_id = 1, in_title = Some (js ''a''), in_description = Some (Some []),
        in_completed = None\<rparr>),
      startEdit \<lparr>todo_id = 1, title = js ''a'', description = Some [], completed = False,
         created_at = 1000, updated_at = 1000\<rparr> initial_view) \<and>
   fst (run [TitleInput (js ''a''), DescriptionInput [], SubmitForm,
        CreateDone (Inr \<lparr>todo_id = 1, title = js ''a'', description = None, completed = False,
           created_at = 1000, updated_at = 1000\<rparr>),
        EditClicked 0, EditDescriptionInput (js ''d''), EditDescriptionInput [], EditSubmitForm]
      initial_view)
   = [CreateTodo \<lparr>ci_title = js ''a'', ci_description = None\<rparr>,
      UpdateTodo \<lparr>in_id = 1, in_title = Some (js ''a''), in_description = Some None,
        in_completed = None\<rparr>] \<and>
   ci_description \<lparr>ci_title = js ''a'', ci_description = None\<rparr> = None \<and>
   in_description \<lparr>in_id = 1, in_title = Some (js ''a''), in_description = Some None,
        in_completed = None\<rparr> \<noteq> Some (Some [])"
proof -
  let ?e = "\<lparr>todo_id = 1, title = js ''a'', description = Some [], completed = False,
         created_at = 1000, updated_at = 1000\<rparr>"
  let ?t = "\<lparr>todo_id = 1, title = js ''a'', description = None, completed = False,
           created_at = 1000, updated_at = 1000\<rparr>"
  let ?es = "[TitleInput (js ''a''), DescriptionInput [], SubmitForm, CreateDone (Inr ?t),
        EditClicked 0, EditDescriptionInput (js ''d''), EditDescriptionInput [], EditSubmitForm]"
  let ?ci = "\<lparr>ci_title = js ''a'', ci_description = None\<rparr>"
  let ?ui = "\<lparr>in_id = 1, in_title = Some (js ''a''), in_description = Some None,
        in_completed = None\<rparr>"
  have r: "fst (run ?es initial_view) = [CreateTodo ?ci, UpdateTodo ?ui]"
    by (simp add: view_eval)
  have d: "\<forall>e \<in> set ?es. \<forall>t \<in> set (delivered e). description t \<noteq> Some []"
    by simp
  have n: "trim (title ?e) \<noteq> []"
    by (simp add: trim_def is_white_space_def js_def)
  note th = view_sends_no_empty_description [of "[]" initial_view ?e ?es]
  from mp [OF th [THEN conjunct2, THEN conjunct2, THEN conjunct2, THEN conjunct2, THEN conjunct2,
      THEN conjunct1] n]
  have s: "handleEditSubmit_call (startEdit ?e initial_view) =
        (Some (UpdateTodo \<lparr>in_id = todo_id ?e, in_title = Some (title ?e),
           in_description = Some (description ?e), in_completed = None\<rparr>), startEdit ?e initial_view)"
    .
  then have s': "handleEditSubmit_call (startEdit ?e initial_view) =
        (Some (UpdateTodo \<lparr>in_id = 1, in_title = Some (js ''a''), in_description = Some (Some []),
           in_completed = None\<rparr>), startEdit ?e initial_view)"
    by simp
  from mp [OF th [THEN conjunct2, THEN conjunct2, THEN conjunct2, THEN conjunct2, THEN conjunct2,
      THEN conjunct2, THEN conjunct2] d]
  have "\<forall>ui. UpdateTodo ui \<in> set (fst (run ?es initial_view)) \<longrightarrow> in_description ui \<noteq> Some (Some [])"
    .
  then have u: "in_description ?ui \<noteq> Some (Some [])"
    unfolding r by simp
  have c: "ci_description ?ci = None"
    by simp
  from s' r c u show ?thesis
    by (intro conjI)
qed

end
